theory Spec2Isabelle
  imports Main "HOL-Library.Sublist"
begin

section \<open>JavaScript values as the bridge sees them\<close>

text \<open>
  Every value the bridge inspects is either parsed JSON (a response body of the
  support desk, a webhook payload) or the result of reading a property that is not
  there. Numbers are modelled as integers (identifiers, page numbers and status codes
  are), with \<open>JNaN\<close> for what \<open>parseInt\<close> gives on a string that is no number.
  Strings are lists of code units below 256.
\<close>

datatype json =
    JUndefined
  | JNull
  | JBool bool
  | JNum int
  | JNaN
  | JStr string
  | JArr "json list"
  | JObj "(string \<times> json) list"

text \<open>Truthiness, as \<open>if (x)\<close>, \<open>x || y\<close> and \<open>x && y\<close> read it.\<close>

fun truthy :: "json \<Rightarrow> bool" where
  "truthy JUndefined = False"
| "truthy JNull = False"
| "truthy (JBool b) = b"
| "truthy (JNum n) = (n \<noteq> 0)"
| "truthy JNaN = False"
| "truthy (JStr s) = (s \<noteq> [])"
| "truthy (JArr xs) = True"
| "truthy (JObj kvs) = True"

definition js_or :: "json \<Rightarrow> json \<Rightarrow> json" where
  "js_or a b = (if truthy a then a else b)"

fun nullish :: "json \<Rightarrow> bool" where
  "nullish JUndefined = True"
| "nullish JNull = True"
| "nullish v = False"

text \<open>
  \<open>v.k\<close> on a value that is neither \<open>null\<close> nor \<open>undefined\<close>: an object's own
  field, \<open>undefined\<close> otherwise (none of the field names the bridge reads is a
  property of arrays, strings, numbers or booleans).
\<close>

fun field :: "json \<Rightarrow> string \<Rightarrow> json" where
  "field (JObj kvs) k = (case map_of kvs k of Some v \<Rightarrow> v | None \<Rightarrow> JUndefined)"
| "field v k = JUndefined"

text \<open>\<open>v?.k\<close>: \<open>undefined\<close> on \<open>null\<close> and \<open>undefined\<close>.\<close>

definition oprop :: "json \<Rightarrow> string \<Rightarrow> json" where
  "oprop v k = (if nullish v then JUndefined else field v k)"

text \<open>\<open>v?.[0]\<close>.\<close>

fun oindex0 :: "json \<Rightarrow> json" where
  "oindex0 (JArr xs) = (case xs of [] \<Rightarrow> JUndefined | x # _ \<Rightarrow> x)"
| "oindex0 (JStr s) = (case s of [] \<Rightarrow> JUndefined | c # _ \<Rightarrow> JStr [c])"
| "oindex0 (JObj kvs) = (case map_of kvs ''0'' of Some v \<Rightarrow> v | None \<Rightarrow> JUndefined)"
| "oindex0 v = JUndefined"

text \<open>
  \<open>a === b\<close> where one side is a number, a string or \<open>undefined\<close> (every strict
  comparison of the bridge is: against \<open>contactIdNum\<close>, \<open>data.source_id\<close> or a token).
  Objects and arrays compare by reference and are never equal to a primitive.
\<close>

fun strict_eq :: "json \<Rightarrow> json \<Rightarrow> bool" where
  "strict_eq JUndefined JUndefined = True"
| "strict_eq JNull JNull = True"
| "strict_eq (JBool a) (JBool b) = (a = b)"
| "strict_eq (JNum a) (JNum b) = (a = b)"
| "strict_eq (JStr a) (JStr b) = (a = b)"
| "strict_eq a b = False"

fun isArray :: "json \<Rightarrow> bool" where
  "isArray (JArr xs) = True"
| "isArray v = False"

fun elems :: "json \<Rightarrow> json list" where
  "elems (JArr xs) = xs"
| "elems v = []"

subsection \<open>Strings\<close>

text \<open>White space as \<open>String.prototype.trim\<close> and the regular expression class \<open>\s\<close> see it.\<close>

definition is_space :: "char \<Rightarrow> bool" where
  "is_space c = (c \<in> set [CHR 0x09, CHR 0x0A, CHR 0x0B, CHR 0x0C, CHR 0x0D, CHR 0x20, CHR 0xA0])"

definition trim :: "string \<Rightarrow> string" where
  "trim s = rev (dropWhile is_space (rev (dropWhile is_space s)))"

text \<open>\<open>hay.includes(needle)\<close> on strings.\<close>

fun str_includes :: "string \<Rightarrow> string \<Rightarrow> bool" where
  "str_includes needle [] = (needle = [])"
| "str_includes needle (c # cs) = (prefix needle (c # cs) \<or> str_includes needle cs)"

text \<open>Decimal rendering of a number in a template literal.\<close>

definition digit_char :: "nat \<Rightarrow> char" where
  "digit_char d = char_of (48 + d)"

fun show_nat :: "nat \<Rightarrow> string" where
  "show_nat n = (if n < 10 then [digit_char n] else show_nat (n div 10) @ [digit_char (n mod 10)])"

declare show_nat.simps [simp del]

definition show_int :: "int \<Rightarrow> string" where
  "show_int i = (if i < 0 then CHR ''-'' # show_nat (nat (- i)) else show_nat (nat i))"

text \<open>\<open>String(v)\<close> and \<open>v.toString()\<close> on a value that is not nullish for the latter.\<close>

fun join_comma :: "string list \<Rightarrow> string" where
  "join_comma [] = []"
| "join_comma [s] = s"
| "join_comma (s # t # ss) = s @ '','' @ join_comma (t # ss)"

fun js_string :: "json \<Rightarrow> string" where
  "js_string JUndefined = ''undefined''"
| "js_string JNull = ''null''"
| "js_string (JBool b) = (if b then ''true'' else ''false'')"
| "js_string (JNum n) = show_int n"
| "js_string JNaN = ''NaN''"
| "js_string (JStr s) = s"
| "js_string (JArr xs) = join_comma (map (\<lambda>x. if nullish x then [] else js_string x) xs)"
| "js_string (JObj kvs) = ''[object Object]''"

text \<open>
  \<open>parseInt(s)\<close> without a radix: leading white space, an optional sign, then
  hexadecimal digits after \<open>0x\<close> or decimal digits; \<open>NaN\<close> when no digit follows.
\<close>

definition digit_val :: "char \<Rightarrow> nat option" where
  "digit_val c =
     (let n = of_char c :: nat in
      if 48 \<le> n \<and> n \<le> 57 then Some (n - 48)
      else if 97 \<le> n \<and> n \<le> 102 then Some (n - 87)
      else if 65 \<le> n \<and> n \<le> 70 then Some (n - 55)
      else None)"

definition is_digit :: "nat \<Rightarrow> char \<Rightarrow> bool" where
  "is_digit radix c = (case digit_val c of Some d \<Rightarrow> d < radix | None \<Rightarrow> False)"

definition digits_value :: "nat \<Rightarrow> string \<Rightarrow> nat" where
  "digits_value radix ds = foldl (\<lambda>acc c. acc * radix + (case digit_val c of Some d \<Rightarrow> d | None \<Rightarrow> 0)) 0 ds"

definition parse_digits :: "nat \<Rightarrow> string \<Rightarrow> nat option" where
  "parse_digits radix s =
     (let ds = takeWhile (is_digit radix) s in
      if ds = [] then None else Some (digits_value radix ds))"

definition parseInt :: "string \<Rightarrow> json" where
  "parseInt s =
     (let s1 = dropWhile is_space s;
          neg = (case s1 of c # _ \<Rightarrow> c = CHR ''-'' | [] \<Rightarrow> False);
          s2 = (case s1 of c # cs \<Rightarrow> if c = CHR ''-'' \<or> c = CHR ''+'' then cs else s1 | [] \<Rightarrow> s1);
          r = (if prefix ''0x'' s2 \<or> prefix ''0X'' s2 then parse_digits 16 (drop 2 s2)
               else parse_digits 10 s2)
      in case r of None \<Rightarrow> JNaN | Some n \<Rightarrow> JNum (if neg then - int n else int n))"


text \<open>
  What \<open>JSON.stringify\<close> puts on the wire: a field whose value is \<open>undefined\<close> is
  left out, \<open>undefined\<close> in an array and \<open>NaN\<close> become \<open>null\<close>.
\<close>

fun stringify :: "json \<Rightarrow> json" where
  "stringify (JArr xs) = JArr (map (\<lambda>x. if x = JUndefined then JNull else stringify x) xs)"
| "stringify (JObj kvs) =
     JObj (map (\<lambda>kv. (fst kv, stringify (snd kv))) (filter (\<lambda>kv. snd kv \<noteq> JUndefined) kvs))"
| "stringify JNaN = JNull"
| "stringify v = v"

section \<open>The HTTP capability of the Remote Directory Client\<close>

text \<open>
  The requests \<open>ChatwootAPI\<close> issues, by method and endpoint below
  \<open>/api/v1/accounts/${accountId}\<close>, with the body as it goes on the wire:
  \<^item> \<open>GET_conversation id\<close>: \<open>/conversations/${id}\<close>
  \<^item> \<open>PUT_contact n body\<close>: \<open>/contacts/${n}\<close>
  \<^item> \<open>POST_contacts body\<close>: \<open>/contacts\<close>
  \<^item> \<open>GET_contacts_search q\<close>: \<open>/contacts/search?q=${q}\<close>
  \<^item> \<open>GET_contacts_identifier q\<close>: \<open>/contacts?identifier=${q}\<close>
  \<^item> \<open>GET_conversations_inbox inbox page\<close>: \<open>/conversations?inbox_id=${inbox}&status=all&page=${page}\<close>
  \<^item> \<open>GET_conversations_all page\<close>: \<open>/conversations?status=all&page=${page}\<close>
  \<^item> \<open>GET_conversations_contact c\<close>: \<open>/conversations?contact_id=${c}&status=all\<close>
  \<^item> \<open>POST_conversations body\<close>: \<open>/conversations\<close>
  \<^item> \<open>POST_messages id body\<close>: \<open>/conversations/${id}/messages\<close>
\<close>

datatype http_request =
    GET_conversation string
  | PUT_contact json json
  | POST_contacts json
  | GET_contacts_search string
  | GET_contacts_identifier string
  | GET_conversations_inbox json nat
  | GET_conversations_all nat
  | GET_conversations_contact json
  | POST_conversations json
  | POST_messages string json

fun is_GET :: "http_request \<Rightarrow> bool" where
  "is_GET (GET_conversation i) = True"
| "is_GET (GET_contacts_search q) = True"
| "is_GET (GET_contacts_identifier q) = True"
| "is_GET (GET_conversations_inbox i p) = True"
| "is_GET (GET_conversations_all p) = True"
| "is_GET (GET_conversations_contact c) = True"
| "is_GET r = False"

text \<open>
  What \<open>fetch\<close> gives back: a status line with the parsed body (\<open>None\<close> for an empty
  or unparseable text, which \<open>request\<close> reads as \<open>{}\<close>), or no response at all
  (the connection failed or the timeout aborted the call) with the runtime's message.
\<close>

datatype http_response =
    Response int string "json option"
  | NoResponse string

text \<open>The remote system: it answers a request and moves to a new state.\<close>

type_synonym 'st remote = "'st \<Rightarrow> http_request \<Rightarrow> http_response \<times> 'st"

text \<open>
  What the bridge throws: the \<open>Error\<close> of \<open>request\<close> on a status outside 2xx (with
  \<open>status\<close> and \<open>data\<close> attached), the rejection of \<open>fetch\<close>, the runtime's
  \<open>TypeError\<close> (with its message, which names the expression that failed) and the bridge's own
  \<open>new Error(message)\<close>.
\<close>

datatype error =
    HttpError int string json
  | FetchError string
  | TypeError string
  | PlainError string

fun err_message :: "error \<Rightarrow> string" where
  "err_message (HttpError status statusText d) =
     ''Chatwoot API error: '' @ show_int status @ '' '' @ statusText"
| "err_message (FetchError m) = m"
| "err_message (TypeError m) = m"
| "err_message (PlainError m) = m"

fun err_status :: "error \<Rightarrow> json" where
  "err_status (HttpError status statusText d) = JNum status"
| "err_status e = JUndefined"

fun err_data :: "error \<Rightarrow> json" where
  "err_data (HttpError status statusText d) = d"
| "err_data e = JUndefined"

text \<open>
  The world the bridge acts on: the remote system's state, the trace of the HTTP
  requests issued so far, the messages handed to the chat transport (peer, text) and
  the rows of the local \<open>failed_messages\<close> table.
\<close>

record failed_message =
  fm_id :: string
  fm_created_at :: string
  fm_sender_id :: "string option"
  fm_username :: "string option"
  fm_first_name :: "string option"
  fm_last_name :: "string option"
  fm_phone :: "string option"
  fm_message :: "string option"
  fm_error :: "string option"
  fm_source_id :: "string option"
  fm_contact_id :: "string option"
  fm_inbox_id :: "string option"

record 'st world =
  remote_state :: 'st
  requests :: "http_request list"
  sent :: "(string \<times> string) list"
  ledger :: "failed_message list"

type_synonym ('a, 'st) outcome = "(error + 'a) \<times> 'st world"

definition request :: "'st remote \<Rightarrow> http_request \<Rightarrow> 'st world \<Rightarrow> (json, 'st) outcome" where
  "request R q w =
     (case R (remote_state w) q of
        (NoResponse m, s') \<Rightarrow>
          (Inl (FetchError m), w\<lparr>remote_state := s', requests := requests w @ [q]\<rparr>)
      | (Response status statusText body, s') \<Rightarrow>
          (let data = (case body of None \<Rightarrow> JObj [] | Some d \<Rightarrow> d);
               w' = w\<lparr>remote_state := s', requests := requests w @ [q]\<rparr>
           in if 200 \<le> status \<and> status \<le> 299 then (Inr data, w')
              else (Inl (HttpError status statusText data), w')))"

definition getConversation :: "'st remote \<Rightarrow> string \<Rightarrow> 'st world \<Rightarrow> (json, 'st) outcome" where
  "getConversation R conversationId w = request R (GET_conversation conversationId) w"

subsection \<open>updateContact\<close>

record contact_update =
  cu_name :: json
  cu_phone_number :: json

text \<open>\<open>typeof v === "string" && v.trim().length > 0\<close>\<close>

fun nonblank_string :: "json \<Rightarrow> bool" where
  "nonblank_string (JStr s) = (trim s \<noteq> [])"
| "nonblank_string v = False"

fun str_of :: "json \<Rightarrow> string" where
  "str_of (JStr s) = s"
| "str_of v = []"

text \<open>The body \<open>updateContact\<close> builds, field by field.\<close>

definition update_body :: "contact_update \<Rightarrow> (string \<times> json) list" where
  "update_body data =
     (if nonblank_string (cu_name data) then [(''name'', JStr (trim (str_of (cu_name data))))] else []) @
     (if nonblank_string (cu_phone_number data)
      then [(''phone_number'', JStr (trim (str_of (cu_phone_number data))))] else [])"

definition updateContact ::
  "'st remote \<Rightarrow> json \<Rightarrow> contact_update \<Rightarrow> 'st world \<Rightarrow> (json, 'st) outcome" where
  "updateContact R contactId data w =
     (if update_body data = [] then (Inr (JObj [(''ok'', JBool True)]), w)
      else
        (case request R (PUT_contact (parseInt (js_string contactId)) (stringify (JObj (update_body data)))) w of
           (Inl e, w') \<Rightarrow> (Inl e, w')
         | (Inr response, w') \<Rightarrow>
             if nullish response then (Inl (TypeError ''null is not an object (evaluating response.contact)''), w')
             else if truthy (field response ''contact'') then (Inr (field response ''contact''), w')
             else if truthy (oprop (field response ''payload'') ''contact'')
             then (Inr (oprop (field response ''payload'') ''contact''), w')
             else (Inr response, w')))"

subsection \<open>createContact\<close>

record contact_data =
  cd_name :: json
  cd_phone_number :: json
  cd_identifier :: json

text \<open>The \<open>try\<close> block of \<open>createContact\<close>: the POST and the unwrapping of its answer.\<close>

definition contact_body :: "contact_data \<Rightarrow> json" where
  "contact_body data =
     JObj [(''name'', js_or (cd_name data) (cd_identifier data)),
           (''phone_number'', cd_phone_number data),
           (''identifier'', cd_identifier data)]"

definition createContact_post :: "'st remote \<Rightarrow> contact_data \<Rightarrow> 'st world \<Rightarrow> (json, 'st) outcome" where
  "createContact_post R data w =
     (case request R (POST_contacts (stringify (contact_body data))) w of
           (Inl e, w') \<Rightarrow> (Inl e, w')
         | (Inr response, w') \<Rightarrow>
             if nullish response then (Inl (TypeError ''null is not an object (evaluating response.contact)''), w')
             else if truthy (field response ''contact'') then (Inr (field response ''contact''), w')
             else if truthy (oprop (field response ''payload'') ''contact'')
             then (Inr (oprop (field response ''payload'') ''contact''), w')
             else if truthy (field response ''payload'') then (Inr (field response ''payload''), w')
             else if truthy (field response ''id'') then (Inr response, w')
             else (Inl (PlainError ''Unexpected contact response''), w'))"

text \<open>
  What the two searches of the \<open>catch\<close> find: \<open>search?.payload?.[0] || search?.contacts?.[0]\<close>
  and \<open>byIdentifier?.payload?.[0] || byIdentifier?.contacts?.[0] || byIdentifier?.data?.[0]\<close>;
  a search that throws finds nothing.
\<close>

definition search_found :: "error + json \<Rightarrow> json" where
  "search_found r =
     (case r of
        Inr search \<Rightarrow> js_or (oindex0 (oprop search ''payload'')) (oindex0 (oprop search ''contacts''))
      | Inl e \<Rightarrow> JUndefined)"

definition identifier_found :: "error + json \<Rightarrow> json" where
  "identifier_found r =
     (case r of
        Inr byIdentifier \<Rightarrow>
          js_or (js_or (oindex0 (oprop byIdentifier ''payload'')) (oindex0 (oprop byIdentifier ''contacts'')))
                (oindex0 (oprop byIdentifier ''data''))
      | Inl e \<Rightarrow> JUndefined)"

definition createContact :: "'st remote \<Rightarrow> contact_data \<Rightarrow> 'st world \<Rightarrow> (json, 'st) outcome" where
  "createContact R data w =
     (case createContact_post R data w of
        (Inr contact, w1) \<Rightarrow> (Inr contact, w1)
      | (Inl error, w1) \<Rightarrow>
          if str_includes ''409'' (err_message error) \<or> str_includes ''422'' (err_message error) then
            (let q = js_string (js_or (cd_identifier data) (JStr []));
                 (r2, w2) = request R (GET_contacts_search q) w1
             in if truthy (search_found r2) then (Inr (search_found r2), w2)
                else
                  (let (r3, w3) = request R (GET_contacts_identifier q) w2
                   in if truthy (identifier_found r3) then (Inr (identifier_found r3), w3)
                      else (Inl error, w3)))
          else (Inl error, w1))"

subsection \<open>createMessage\<close>

record message_data =
  md_content :: json
  md_message_type :: json
  md_private :: json

definition message_body :: "message_data \<Rightarrow> json" where
  "message_body data =
     JObj [(''content'', md_content data),
           (''message_type'', js_or (md_message_type data) (JStr ''incoming'')),
           (''private'', js_or (md_private data) (JBool False))]"

definition createMessage ::
  "'st remote \<Rightarrow> string \<Rightarrow> message_data \<Rightarrow> 'st world \<Rightarrow> (json, 'st) outcome" where
  "createMessage R conversationId data w =
     (case request R (POST_messages conversationId (stringify (message_body data))) w of
           (Inl e, w') \<Rightarrow> (Inl e, w')
         | (Inr response, w') \<Rightarrow>
             if nullish response then (Inl (TypeError ''null is not an object (evaluating response.message)''), w')
             else if truthy (field response ''message'') then (Inr (field response ''message''), w')
             else if truthy (oprop (field response ''payload'') ''message'')
             then (Inr (oprop (field response ''payload'') ''message''), w')
             else (Inr response, w'))"


subsection \<open>createConversation\<close>

record conversation_data =
  cv_contact_id :: string
  cv_inbox_id :: string
  cv_source_id :: json

definition parseConversations :: "json \<Rightarrow> json list" where
  "parseConversations raw =
     (if isArray raw then elems raw
      else if isArray (oprop (oprop raw ''data'') ''payload'') then elems (oprop (oprop raw ''data'') ''payload'')
      else if isArray (oprop raw ''payload'') then elems (oprop raw ''payload'')
      else if isArray (oprop raw ''data'') then elems (oprop raw ''data'')
      else if isArray (oprop raw ''conversations'') then elems (oprop raw ''conversations'')
      else if isArray (oprop (oprop raw ''meta'') ''payload'') then elems (oprop (oprop raw ''meta'') ''payload'')
      else [])"

text \<open>
  \<open>Array.prototype.find\<close> with a callback that may throw (reading a field of a
  \<open>null\<close> element does): the first element the callback accepts, \<open>undefined\<close> when
  there is none.
\<close>

fun find_js :: "(json \<Rightarrow> error + bool) \<Rightarrow> json list \<Rightarrow> error + json" where
  "find_js p [] = Inr JUndefined"
| "find_js p (x # xs) =
     (case p x of
        Inl e \<Rightarrow> Inl e
      | Inr b \<Rightarrow> if b then Inr x else find_js p xs)"

definition matchesContact :: "json \<Rightarrow> json \<Rightarrow> error + bool" where
  "matchesContact contactIdNum conv =
     (if nullish conv then Inl (TypeError ''null is not an object (evaluating conv.contact_id)'')
      else
        (let convContactId =
               js_or (js_or (field conv ''contact_id'') (oprop (field conv ''contact'') ''id''))
                     (oprop (oprop (field conv ''meta'') ''sender'') ''id'')
         in Inr (strict_eq convContactId contactIdNum)))"

text \<open>
  The loop of \<open>findExistingByContact\<close> over the pages still to fetch
  (\<open>for (let page = 1; page <= 5; page++)\<close> is the list \<open>[1, 2, 3, 4, 5]\<close>).
\<close>

fun findExistingByContact_pages ::
  "'st remote \<Rightarrow> json \<Rightarrow> json \<Rightarrow> nat list \<Rightarrow> 'st world \<Rightarrow> (json, 'st) outcome" where
  "findExistingByContact_pages R contactIdNum inboxIdNum [] w = (Inr JUndefined, w)"
| "findExistingByContact_pages R contactIdNum inboxIdNum (page # pages) w =
     (case request R (GET_conversations_inbox inboxIdNum page) w of
        (Inl e, w') \<Rightarrow> (Inl e, w')
      | (Inr list, w') \<Rightarrow>
          (let conversations = parseConversations list in
           case find_js (matchesContact contactIdNum) conversations of
             Inl e \<Rightarrow> (Inl e, w')
           | Inr existing \<Rightarrow>
               if truthy existing then (Inr existing, w')
               else if conversations = [] then (Inr JUndefined, w')
               else findExistingByContact_pages R contactIdNum inboxIdNum pages w'))"

definition findExistingByContact ::
  "'st remote \<Rightarrow> json \<Rightarrow> json \<Rightarrow> 'st world \<Rightarrow> (json, 'st) outcome" where
  "findExistingByContact R contactIdNum inboxIdNum w =
     findExistingByContact_pages R contactIdNum inboxIdNum [1, 2, 3, 4, 5] w"

definition conversation_body :: "conversation_data \<Rightarrow> json" where
  "conversation_body data =
     JObj [(''contact_id'', parseInt (cv_contact_id data)),
           (''inbox_id'', parseInt (cv_inbox_id data)),
           (''source_id'', cv_source_id data),
           (''additional_attributes'', JObj [(''source_id'', cv_source_id data)])]"

text \<open>The \<open>try\<close> block around the creating POST and the unwrapping of its answer.\<close>

definition createConversation_post ::
  "'st remote \<Rightarrow> conversation_data \<Rightarrow> 'st world \<Rightarrow> (json, 'st) outcome" where
  "createConversation_post R data w =
     (case request R (POST_conversations (stringify (conversation_body data))) w of
           (Inl e, w') \<Rightarrow> (Inl e, w')
         | (Inr response, w') \<Rightarrow>
             if nullish response
             then (Inl (TypeError ''null is not an object (evaluating response.conversation)''), w')
             else if truthy (field response ''conversation'') then (Inr (field response ''conversation''), w')
             else if truthy (oprop (field response ''payload'') ''conversation'')
             then (Inr (oprop (field response ''payload'') ''conversation''), w')
             else if truthy (field response ''id'') then (Inr response, w')
             else (Inl (PlainError ''Unexpected conversation response''), w'))"

text \<open>
  \<open>v?.includes("source_id")\<close> on a field of the error's data: a substring test on a
  string, membership in an array, \<open>undefined\<close> on a nullish value, and a
  \<open>TypeError\<close> on anything else (it has no method \<open>includes\<close>).
\<close>

fun opt_includes :: "json \<Rightarrow> string \<Rightarrow> error + json" where
  "opt_includes JUndefined needle = Inr JUndefined"
| "opt_includes JNull needle = Inr JUndefined"
| "opt_includes (JStr s) needle = Inr (JBool (str_includes needle s))"
| "opt_includes (JArr xs) needle = Inr (JBool (JStr needle \<in> set xs))"
| "opt_includes v needle = Inl (TypeError ''includes is not a function'')"

definition isSourceIdError :: "json \<Rightarrow> error + json" where
  "isSourceIdError errorData =
     (case opt_includes (oprop errorData ''error'') ''source_id'' of
        Inl e \<Rightarrow> Inl e
      | Inr a \<Rightarrow> if truthy a then Inr a else opt_includes (oprop errorData ''message'') ''source_id'')"

definition matchesSourceId :: "json \<Rightarrow> json \<Rightarrow> error + bool" where
  "matchesSourceId source_id conv =
     (if nullish conv then Inl (TypeError ''null is not an object (evaluating conv.source_id)'')
      else
        (let cid =
               js_or (js_or (js_or (field conv ''source_id'')
                                   (oprop (field conv ''contact_inbox'') ''source_id''))
                            (oprop (field conv ''additional_attributes'') ''source_id''))
                     (oprop (oprop (oprop (field conv ''meta'') ''sender'') ''additional_attributes'') ''source_id'')
         in Inr (strict_eq cid source_id)))"

text \<open>
  The scans below give \<open>Inr (Some c)\<close> where the source returns \<open>c\<close> from
  \<open>createConversation\<close>, \<open>Inr None\<close> where it falls through to the next
  statement, and \<open>Inl e\<close> where it throws to the enclosing \<open>catch\<close>.
\<close>

fun source_list_scan ::
  "'st remote \<Rightarrow> json \<Rightarrow> nat list \<Rightarrow> 'st world \<Rightarrow> (json option, 'st) outcome" where
  "source_list_scan R source_id [] w = (Inr None, w)"
| "source_list_scan R source_id (page # pages) w =
     (case request R (GET_conversations_all page) w of
        (Inl e, w') \<Rightarrow> (Inl e, w')
      | (Inr list, w') \<Rightarrow>
          (let convList = parseConversations list in
           case find_js (matchesSourceId source_id) convList of
             Inl e \<Rightarrow> (Inl e, w')
           | Inr existing \<Rightarrow>
               if truthy existing then (Inr (Some existing), w')
               else if convList = [] then (Inr None, w')
               else source_list_scan R source_id pages w'))"

definition detail_source_id :: "json \<Rightarrow> json" where
  "detail_source_id detail =
     js_or (js_or (js_or (oprop detail ''source_id'')
                         (oprop (oprop detail ''additional_attributes'') ''source_id''))
                  (oprop (oprop detail ''contact_inbox'') ''source_id''))
           (oprop (oprop (oprop (oprop detail ''meta'') ''sender'') ''additional_attributes'') ''source_id'')"

text \<open>
  \<open>for (const c of convList) { try { ... } catch (dErr) { console.log(... c.id ...) } }\<close>:
  a failed detail fetch is logged and skipped; a \<open>null\<close> element makes \<open>c.id\<close> throw
  in the \<open>try\<close> and again in the handler's log line, so that one leaves the loop; a
  matching detail that is \<open>null\<close> makes the log line \<open>detail.id\<close> throw, which the
  handler swallows.
\<close>

fun deep_check ::
  "'st remote \<Rightarrow> json \<Rightarrow> json list \<Rightarrow> 'st world \<Rightarrow> (json option, 'st) outcome" where
  "deep_check R source_id [] w = (Inr None, w)"
| "deep_check R source_id (c # cs) w =
     (if nullish c then (Inl (TypeError ''null is not an object (evaluating c.id)''), w)
      else
        (case getConversation R (js_string (field c ''id'')) w of
           (Inl dErr, w') \<Rightarrow> deep_check R source_id cs w'
         | (Inr detail, w') \<Rightarrow>
             if strict_eq (detail_source_id detail) source_id \<and> \<not> nullish detail
             then (Inr (Some detail), w')
             else deep_check R source_id cs w'))"

fun deep_scan ::
  "'st remote \<Rightarrow> json \<Rightarrow> nat list \<Rightarrow> 'st world \<Rightarrow> (json option, 'st) outcome" where
  "deep_scan R source_id [] w = (Inr None, w)"
| "deep_scan R source_id (page # pages) w =
     (case request R (GET_conversations_all page) w of
        (Inl e, w') \<Rightarrow> (Inl e, w')
      | (Inr list, w') \<Rightarrow>
          (let convList = parseConversations list in
           case deep_check R source_id convList w' of
             (Inl e, w'') \<Rightarrow> (Inl e, w'')
           | (Inr (Some detail), w'') \<Rightarrow> (Inr (Some detail), w'')
           | (Inr None, w'') \<Rightarrow>
               if convList = [] then (Inr None, w'')
               else deep_scan R source_id pages w''))"

text \<open>The inner \<open>try\<close> of the search: the conversations filtered by contact. Its \<open>catch\<close> only logs.\<close>

definition contact_filtered_search ::
  "'st remote \<Rightarrow> json \<Rightarrow> json \<Rightarrow> 'st world \<Rightarrow> json option \<times> 'st world" where
  "contact_filtered_search R source_id contactIdNum w =
     (case request R (GET_conversations_contact contactIdNum) w of
        (Inl e, w') \<Rightarrow> (None, w')
      | (Inr byContact, w') \<Rightarrow>
          (let convList = parseConversations byContact in
           case find_js (matchesSourceId source_id) convList of
             Inl e \<Rightarrow> (None, w')
           | Inr existing \<Rightarrow>
               if truthy existing then (Some existing, w')
               else
                 (case deep_check R source_id convList w' of
                    (Inl e, w'') \<Rightarrow> (None, w'')
                  | (Inr found, w'') \<Rightarrow> (found, w''))))"

text \<open>The outer \<open>try\<close> of the search, whose \<open>catch\<close> only logs as well.\<close>

definition search_by_source_id ::
  "'st remote \<Rightarrow> json \<Rightarrow> json \<Rightarrow> 'st world \<Rightarrow> json option \<times> 'st world" where
  "search_by_source_id R source_id contactIdNum w =
     (case source_list_scan R source_id [1, 2, 3, 4, 5] w of
        (Inl e, w1) \<Rightarrow> (None, w1)
      | (Inr (Some existing), w1) \<Rightarrow> (Some existing, w1)
      | (Inr None, w1) \<Rightarrow>
          (case deep_scan R source_id [1, 2, 3, 4, 5] w1 of
             (Inl e, w2) \<Rightarrow> (None, w2)
           | (Inr (Some detail), w2) \<Rightarrow> (Some detail, w2)
           | (Inr None, w2) \<Rightarrow> contact_filtered_search R source_id contactIdNum w2))"

text \<open>The last resort: the POST without the top-level \<open>source_id\<close>.\<close>

definition fallbackBody :: "conversation_data \<Rightarrow> json" where
  "fallbackBody data =
     JObj [(''contact_id'', parseInt (cv_contact_id data)),
           (''inbox_id'', parseInt (cv_inbox_id data)),
           (''additional_attributes'', JObj [(''source_id'', cv_source_id data)])]"

text \<open>\<open>resp.conversation || resp.payload?.conversation || resp\<close>\<close>

definition fallback_conversation :: "json \<Rightarrow> json" where
  "fallback_conversation resp =
     js_or (js_or (field resp ''conversation'') (oprop (field resp ''payload'') ''conversation'')) resp"

definition create_without_source_id ::
  "'st remote \<Rightarrow> conversation_data \<Rightarrow> 'st world \<Rightarrow> json option \<times> 'st world" where
  "create_without_source_id R data w =
     (case request R (POST_conversations (stringify (fallbackBody data))) w of
        (Inl fallbackErr, w') \<Rightarrow> (None, w')
      | (Inr resp, w') \<Rightarrow>
          if nullish resp then (None, w')
          else if truthy (oprop (fallback_conversation resp) ''id'') then (Some (fallback_conversation resp), w')
          else (None, w'))"

text \<open>
  \<open>createConversation\<close> from \<open>const body = ...\<close> on: the creating POST and the
  \<open>catch (createErr)\<close> around it.
\<close>

definition createConversation_create ::
  "'st remote \<Rightarrow> conversation_data \<Rightarrow> 'st world \<Rightarrow> (json, 'st) outcome" where
  "createConversation_create R data w =
     (case createConversation_post R data w of
        (Inr conv, w1) \<Rightarrow> (Inr conv, w1)
      | (Inl createErr, w1) \<Rightarrow>
          (case isSourceIdError (err_data createErr) of
             Inl typeErr \<Rightarrow> (Inl typeErr, w1)
           | Inr isSrc \<Rightarrow>
               if strict_eq (err_status createErr) (JNum 422) \<and> truthy isSrc then
                 (case search_by_source_id R (cv_source_id data) (parseInt (cv_contact_id data)) w1 of
                    (Some existing, w2) \<Rightarrow> (Inr existing, w2)
                  | (None, w2) \<Rightarrow>
                      (case create_without_source_id R data w2 of
                         (Some conv, w3) \<Rightarrow> (Inr conv, w3)
                       | (None, w3) \<Rightarrow> (Inl createErr, w3)))
               else (Inl createErr, w1)))"

text \<open>
  What follows the look-up by contact, given its result \<open>found\<close> (a thrown error is
  logged and ignored): \<open>if (existing) return existing\<close>, else the creation.
\<close>

definition createConversation_resume ::
  "'st remote \<Rightarrow> conversation_data \<Rightarrow> error + json \<Rightarrow> 'st world \<Rightarrow> (json, 'st) outcome" where
  "createConversation_resume R data found w =
     (case found of
        Inr existing \<Rightarrow> if truthy existing then (Inr existing, w) else createConversation_create R data w
      | Inl e \<Rightarrow> createConversation_create R data w)"

definition createConversation ::
  "'st remote \<Rightarrow> conversation_data \<Rightarrow> 'st world \<Rightarrow> (json, 'st) outcome" where
  "createConversation R data w =
     (case findExistingByContact R (parseInt (cv_contact_id data)) (parseInt (cv_inbox_id data)) w of
        (found, w0) \<Rightarrow> createConversation_resume R data found w0)"


section \<open>The local store of failed forwards\<close>

record FailedMessageRecord =
  e_senderId :: "string option"
  e_username :: "string option"
  e_firstName :: "string option"
  e_lastName :: "string option"
  e_phone :: "string option"
  e_message :: "string option"
  e_error :: "string option"
  e_sourceId :: "string option"
  e_contactId :: "string option"
  e_inboxId :: "string option"

text \<open>\<open>entry.f || null\<close>: an empty string is stored as \<open>NULL\<close>.\<close>

definition or_null :: "string option \<Rightarrow> string option" where
  "or_null v = (case v of Some s \<Rightarrow> if s = [] then None else Some s | None \<Rightarrow> None)"

text \<open>
  \<open>recordFailedMessage\<close>, given the fresh identifier and the time stamp the runtime
  hands out and whether the database accepts the row (a failure is only warned about).
\<close>

definition recordFailedMessage ::
  "string \<Rightarrow> string \<Rightarrow> bool \<Rightarrow> FailedMessageRecord \<Rightarrow> 'st world \<Rightarrow> 'st world" where
  "recordFailedMessage uuid createdAt db_ok entry w =
     (if db_ok then
        w\<lparr>ledger := ledger w @
             [\<lparr>fm_id = uuid, fm_created_at = createdAt,
               fm_sender_id = or_null (e_senderId entry), fm_username = or_null (e_username entry),
               fm_first_name = or_null (e_firstName entry), fm_last_name = or_null (e_lastName entry),
               fm_phone = or_null (e_phone entry), fm_message = or_null (e_message entry),
               fm_error = or_null (e_error entry), fm_source_id = or_null (e_sourceId entry),
               fm_contact_id = e_contactId entry, fm_inbox_id = e_inboxId entry\<rparr>]\<rparr>
      else w)"

section \<open>The Inbound Forwarder\<close>

text \<open>What the message handler reads off the sender of an event.\<close>

record sender =
  s_id :: "string option"
  s_username :: string
  s_firstName :: string
  s_lastName :: string
  s_phone :: string

text \<open>\<open>[firstName, lastName].filter(Boolean).join(" ").trim() || username || "Telegram User"\<close>\<close>

definition join_space :: "string list \<Rightarrow> string" where
  "join_space xs = (case xs of [] \<Rightarrow> [] | [a] \<Rightarrow> a | a # b # _ \<Rightarrow> a @ '' '' @ b)"

definition fullName_of :: "string \<Rightarrow> string \<Rightarrow> string \<Rightarrow> string" where
  "fullName_of fname lname uname =
     (let joined = trim (join_space (filter (\<lambda>s. s \<noteq> []) [fname, lname]))
      in if joined \<noteq> [] then joined else if uname \<noteq> [] then uname else ''Telegram User'')"

text \<open>The template literal \<open>telegram_${senderId}\<close>.\<close>

definition identity_key :: "string option \<Rightarrow> string" where
  "identity_key sid = ''telegram_'' @ (case sid of Some i \<Rightarrow> i | None \<Rightarrow> ''undefined'')"

text \<open>\<open>(v || "").trim()\<close>: a truthy value that is no string has no \<open>trim\<close>.\<close>

fun or_empty_trim :: "json \<Rightarrow> error + string" where
  "or_empty_trim (JStr s) = Inr (trim s)"
| "or_empty_trim v = (if truthy v then Inl (TypeError ''trim is not a function'') else Inr [])"

text \<open>
  The block \<open>If existing contact has outdated fields, update them\<close>: the update it
  decides on, \<open>Inr None\<close> for none. Whatever it throws is caught and logged by its
  own \<open>catch\<close>.
\<close>

definition needed_update :: "json \<Rightarrow> string \<Rightarrow> string \<Rightarrow> error + contact_update option" where
  "needed_update contact fullName phone =
     (let currentName = js_or (oprop contact ''name'') (oprop (oprop contact ''contact'') ''name'');
          currentPhone = js_or (oprop contact ''phone_number'') (oprop (oprop contact ''contact'') ''phone_number'');
          desiredName = fullName;
          desiredPhone = trim phone;
          isValidPhone = (desiredPhone \<noteq> [] \<and> prefix ''+'' desiredPhone)
      in case (if desiredName \<noteq> [] \<and> trim desiredName \<noteq> []
               then (case or_empty_trim currentName of
                       Inl e \<Rightarrow> Inl e
                     | Inr cur \<Rightarrow> Inr (trim desiredName \<noteq> cur))
               else Inr False) of
           Inl e \<Rightarrow> Inl e
         | Inr needsNameUpdate \<Rightarrow>
             (case (if isValidPhone
                    then (case or_empty_trim currentPhone of
                            Inl e \<Rightarrow> Inl e
                          | Inr cur \<Rightarrow> Inr (desiredPhone \<noteq> cur))
                    else Inr False) of
                Inl e \<Rightarrow> Inl e
              | Inr needsPhoneUpdate \<Rightarrow>
                  if needsNameUpdate \<or> needsPhoneUpdate
                  then Inr (Some \<lparr>cu_name = (if needsNameUpdate then JStr desiredName else JUndefined),
                                   cu_phone_number = (if needsPhoneUpdate then JStr desiredPhone else JUndefined)\<rparr>)
                  else Inr None))"

definition sync_contact ::
  "'st remote \<Rightarrow> json \<Rightarrow> json \<Rightarrow> string \<Rightarrow> string \<Rightarrow> 'st world \<Rightarrow> 'st world" where
  "sync_contact R contact contactId fullName phone w =
     (case needed_update contact fullName phone of
        Inl updateErr \<Rightarrow> w
      | Inr None \<Rightarrow> w
      | Inr (Some upd) \<Rightarrow> snd (updateContact R contactId upd w))"

text \<open>
  \<open>forwardToCharwoot\<close>. Its \<open>catch\<close> logs the error with the sender's id and name
  and throws it again, so an error of any step is the function's result.
\<close>

definition forwardToCharwoot ::
  "'st remote \<Rightarrow> string \<Rightarrow> sender \<Rightarrow> string \<Rightarrow> 'st world \<Rightarrow> (unit, 'st) outcome" where
  "forwardToCharwoot R inboxId sd text w =
     (let fullName = fullName_of (s_firstName sd) (s_lastName sd) (s_username sd) in
      case createContact R
             \<lparr>cd_name = JStr fullName,
              cd_phone_number = (if s_phone sd \<noteq> [] then JStr (s_phone sd) else JUndefined),
              cd_identifier = JStr (identity_key (s_id sd))\<rparr> w of
        (Inl e, w1) \<Rightarrow> (Inl e, w1)
      | (Inr contact, w1) \<Rightarrow>
          if nullish contact then (Inl (TypeError ''null is not an object (evaluating contact.id)''), w1)
          else
            (let contactId = js_or (js_or (oprop contact ''id'') (oprop contact ''contact_id''))
                                   (oprop (oprop contact ''contact'') ''id'')
             in if \<not> truthy contactId then (Inl (PlainError ''Contact creation/search returned no id''), w1)
                else
                  (let w2 = sync_contact R contact contactId fullName (s_phone sd) w1 in
                   case createConversation R
                          \<lparr>cv_contact_id = js_string contactId, cv_inbox_id = inboxId,
                           cv_source_id = JStr (identity_key (s_id sd))\<rparr> w2 of
                     (Inl e, w3) \<Rightarrow> (Inl e, w3)
                   | (Inr conversation, w3) \<Rightarrow>
                       if nullish conversation
                       then (Inl (TypeError ''null is not an object (evaluating conversation.id)''), w3)
                       else
                         (let conversationId = js_or (oprop conversation ''id'') (oprop conversation ''conversation_id'')
                          in if \<not> truthy conversationId
                             then (Inl (PlainError ''Conversation creation returned no id''), w3)
                             else
                               (case createMessage R (js_string conversationId)
                                       \<lparr>md_content = JStr text, md_message_type = JStr ''incoming'',
                                        md_private = JUndefined\<rparr> w3 of
                                  (Inl e, w4) \<Rightarrow> (Inl e, w4)
                                | (Inr m, w4) \<Rightarrow> (Inr (), w4))))))"

text \<open>
  The handler \<open>startTelegram\<close> registers for new messages. An event carries the
  message's text, whether it has a peer and whether it comes from a group or channel;
  \<open>getSender\<close> gives the sender or throws.
\<close>

record message_event =
  me_text :: "string option"
  me_has_peer :: bool
  me_isGroup :: bool
  me_getSender :: "error + sender"

record environment =
  API_BEARER_TOKEN :: "string option"
  CHATWOOT_WEBHOOK_TOKEN :: "string option"
  CHATWOOT_IGNORE_GROUP :: "string option"
  CHATWOOT_INBOX_ID :: "string option"
  CHATWOOT_URL :: "string option"
  CHATWOOT_API_KEY :: "string option"

text \<open>An environment variable read in a condition: unset and empty are both falsy.\<close>

definition env_truthy :: "string option \<Rightarrow> bool" where
  "env_truthy v = (case v of Some s \<Rightarrow> s \<noteq> [] | None \<Rightarrow> False)"

definition env_or :: "string option \<Rightarrow> string \<Rightarrow> string" where
  "env_or v d = (case v of Some s \<Rightarrow> if s \<noteq> [] then s else d | None \<Rightarrow> d)"

definition message_handler ::
  "'st remote \<Rightarrow> environment \<Rightarrow> bool \<Rightarrow> message_event \<Rightarrow> 'st world \<Rightarrow> (unit, 'st) outcome" where
  "message_handler R env chatwoot ev w =
     (if \<not> (case me_text ev of Some t \<Rightarrow> t \<noteq> [] | None \<Rightarrow> False) \<or> \<not> me_has_peer ev then (Inr (), w)
      else if me_isGroup ev \<and> CHATWOOT_IGNORE_GROUP env = Some ''true'' then (Inr (), w)
      else
        (case me_getSender ev of
           Inl e \<Rightarrow> (Inr (), w)
         | Inr sd \<Rightarrow>
             if chatwoot then
               (case forwardToCharwoot R (env_or (CHATWOOT_INBOX_ID env) ''1'') sd (case me_text ev of Some t \<Rightarrow> t | None \<Rightarrow> []) w of
                  (Inl e, w') \<Rightarrow> (Inr (), w')
                | (Inr u, w') \<Rightarrow> (Inr (), w'))
             else (Inr (), w)))"


section \<open>The HTTP server: the webhook receiver and the direct-send endpoint\<close>

text \<open>
  The chat transport as the server uses it: \<open>sendMessage(peer, {message})\<close>, which
  delivers or throws with a message, and \<open>getEntity(handle)\<close>, which resolves a handle
  to a peer or throws. Every call of \<open>sendMessage\<close> is recorded in the world.
\<close>

record telegram =
  tg_sendMessage :: "string \<Rightarrow> string \<Rightarrow> string option"
  tg_getEntity :: "string \<Rightarrow> string option"

definition sendMessage :: "telegram \<Rightarrow> string \<Rightarrow> string \<Rightarrow> 'st world \<Rightarrow> (unit, 'st) outcome" where
  "sendMessage tg peer text w =
     (case tg_sendMessage tg peer text of
        None \<Rightarrow> (Inr (), w\<lparr>sent := sent w @ [(peer, text)]\<rparr>)
      | Some m \<Rightarrow> (Inl (PlainError m), w\<lparr>sent := sent w @ [(peer, text)]\<rparr>))"

text \<open>
  \<open>chatwootWebhookSchema.parse(body)\<close>: every field is optional and typed, a key the
  schema does not declare is dropped, and \<open>None\<close> stands for the validation error.
\<close>

fun is_string :: "json \<Rightarrow> bool" where
  "is_string (JStr s) = True"
| "is_string v = False"

fun is_number :: "json \<Rightarrow> bool" where
  "is_number (JNum n) = True"
| "is_number v = False"

definition optional_key :: "(json \<Rightarrow> bool) \<Rightarrow> json \<Rightarrow> string \<Rightarrow> (string \<times> json) list option" where
  "optional_key ok obj k =
     (let v = field obj k in
      if v = JUndefined then Some [] else if ok v then Some [(k, v)] else None)"

definition conversation_schema_parse :: "json \<Rightarrow> json option" where
  "conversation_schema_parse c =
     (case c of
        JObj kvs \<Rightarrow>
          (case optional_key is_number c ''id'' of
             None \<Rightarrow> None
           | Some a \<Rightarrow>
               (case optional_key is_string c ''source_id'' of
                  None \<Rightarrow> None
                | Some b \<Rightarrow> Some (JObj (a @ b))))
      | _ \<Rightarrow> None)"

definition chatwootWebhookSchema_parse :: "json \<Rightarrow> json option" where
  "chatwootWebhookSchema_parse body =
     (case body of
        JObj kvs \<Rightarrow>
          (case (optional_key is_string body ''event'', optional_key is_string body ''message_type'',
                 optional_key is_string body ''content'') of
             (Some e, Some m, Some c) \<Rightarrow>
               (if field body ''conversation'' = JUndefined then Some (JObj (e @ m @ c))
                else
                  (case conversation_schema_parse (field body ''conversation'') of
                     None \<Rightarrow> None
                   | Some conv \<Rightarrow> Some (JObj (e @ m @ c @ [(''conversation'', conv)]))))
           | _ \<Rightarrow> None)
      | _ \<Rightarrow> None)"

text \<open>\<open>a || b\<close> on two optional strings.\<close>

definition or_opt :: "string option \<Rightarrow> string option \<Rightarrow> string option" where
  "or_opt a b = (case a of Some s \<Rightarrow> if s \<noteq> [] then Some s else b | None \<Rightarrow> b)"

text \<open>
  The source tag of a conversation's detail as the webhook handler reads it:
  \<open>convo?.source_id || convo?.contact_inbox?.source_id || convo?.additional_attributes?.source_id\<close>.
\<close>

definition convo_source_id :: "json \<Rightarrow> json" where
  "convo_source_id convo =
     js_or (js_or (oprop convo ''source_id'') (oprop (oprop convo ''contact_inbox'') ''source_id''))
           (oprop (oprop convo ''additional_attributes'') ''source_id'')"

text \<open>
  The first \<open>try\<close> step of the forwarding block: the source tag of the parsed event,
  after the detail fetch when the event has none and carries a conversation id.
  \<open>createChatwootAPI()\<close> throws unless both \<open>CHATWOOT_URL\<close> and \<open>CHATWOOT_API_KEY\<close>
  are set.
\<close>

definition recover_source_id ::
  "'st remote \<Rightarrow> environment \<Rightarrow> json \<Rightarrow> 'st world \<Rightarrow> (json, 'st) outcome" where
  "recover_source_id R env parsed w =
     (let sourceId = convo_source_id (oprop parsed ''conversation'') in
      if \<not> truthy sourceId \<and> truthy (oprop (oprop parsed ''conversation'') ''id'') then
        (if \<not> env_truthy (CHATWOOT_URL env) \<or> \<not> env_truthy (CHATWOOT_API_KEY env)
         then (Inl (PlainError ''CHATWOOT_URL and CHATWOOT_API_KEY must be set''), w)
         else
           (case getConversation R (js_string (oprop (oprop parsed ''conversation'') ''id'')) w of
              (Inl e, w') \<Rightarrow> (Inl e, w')
            | (Inr convo, w') \<Rightarrow> (Inr (convo_source_id convo), w')))
      else (Inr sourceId, w))"

text \<open>
  The block \<open>Forward Chatwoot -> Telegram\<close>. Nothing it throws leaves it: a failed
  recovery and a failed delivery are logged. \<open>sourceId.startsWith\<close> on a truthy value
  that is no string throws into the same \<open>catch\<close>; on a string that starts with
  \<open>telegram_\<close>, \<open>replace("telegram_", "")\<close> removes that prefix.
\<close>

definition outbound_forward ::
  "'st remote \<Rightarrow> environment \<Rightarrow> telegram option \<Rightarrow> json \<Rightarrow> 'st world \<Rightarrow> 'st world" where
  "outbound_forward R env telegramClient parsed w =
     (case telegramClient of
        None \<Rightarrow> w
      | Some tg \<Rightarrow>
          if strict_eq (field parsed ''message_type'') (JStr ''outgoing'') \<and> truthy (field parsed ''content'') then
            (case recover_source_id R env parsed w of
               (Inl err, w') \<Rightarrow> w'
             | (Inr sourceId, w') \<Rightarrow>
                 (case sourceId of
                    JStr s \<Rightarrow>
                      if s \<noteq> [] \<and> prefix ''telegram_'' s
                      then snd (sendMessage tg (drop 9 s) (str_of (field parsed ''content'')) w')
                      else w'
                  | _ \<Rightarrow> w'))
          else w)"

text \<open>
  \<open>POST /webhooks/chatwoot\<close>. When \<open>API_BEARER_TOKEN\<close> is set, the server's bearer
  hook runs first, as on every route but \<open>/healthz\<close>, on the token the bearer plug-in
  extracted from the request (\<open>bearer\<close>): \<open>if (!bearer || bearer !== token) throw\<close>.
  Then the handler: the webhook token check, the schema, the forwarding, \<open>{ ok: true }\<close>.
\<close>

definition chatwoot_webhook ::
  "'st remote \<Rightarrow> environment \<Rightarrow> telegram option \<Rightarrow> string option \<Rightarrow> (string \<Rightarrow> string option) \<Rightarrow>
   string option \<Rightarrow> json \<Rightarrow> 'st world \<Rightarrow> (json, 'st) outcome" where
  "chatwoot_webhook R env telegramClient bearer headers queryToken body w =
     (if env_truthy (API_BEARER_TOKEN env) \<and> or_opt bearer None \<noteq> API_BEARER_TOKEN env
      then (Inl (PlainError ''Unauthorized''), w)
      else if env_truthy (CHATWOOT_WEBHOOK_TOKEN env) \<and>
              or_opt (headers ''x-webhook-token'') queryToken \<noteq> CHATWOOT_WEBHOOK_TOKEN env
      then (Inl (PlainError ''Unauthorized''), w)
      else
        (case chatwootWebhookSchema_parse body of
           None \<Rightarrow> (Inl (PlainError ''Invalid webhook payload''), w)
         | Some parsed \<Rightarrow> (Inr (JObj [(''ok'', JBool True)]), outbound_forward R env telegramClient parsed w)))"

text \<open>
  \<open>POST /telegram/send-channel\<close>. When \<open>API_BEARER_TOKEN\<close> is set, the server's
  bearer middleware runs first, on the token the bearer plug-in extracted from the
  request (\<open>bearer\<close>); then the endpoint's own check of the \<open>Authorization\<close> header.
  \<open>authHeader.replace(/^Bearer\s+/i, "")\<close> on a header that starts with \<open>Bearer \<close>
  removes that word and the white space after it.
\<close>

definition providedToken :: "(string \<Rightarrow> string option) \<Rightarrow> string option" where
  "providedToken headers =
     (case or_opt (headers ''authorization'') (headers ''Authorization'') of
        Some authHeader \<Rightarrow>
          if prefix ''Bearer '' authHeader then Some (dropWhile is_space (drop 6 authHeader)) else None
      | None \<Rightarrow> None)"

definition send_schema_parse :: "json \<Rightarrow> (string \<times> string) option" where
  "send_schema_parse body =
     (case (body, field body ''channel'', field body ''message'') of
        (JObj kvs, JStr channel, JStr msg) \<Rightarrow>
          if channel \<noteq> [] \<and> msg \<noteq> [] then Some (channel, msg) else None
      | _ \<Rightarrow> None)"

definition strip_at :: "string \<Rightarrow> string" where
  "strip_at channel = (case channel of c # cs \<Rightarrow> if c = CHR ''@'' then cs else channel | [] \<Rightarrow> channel)"

definition send_channel ::
  "environment \<Rightarrow> telegram option \<Rightarrow> string option \<Rightarrow> (string \<Rightarrow> string option) \<Rightarrow> json \<Rightarrow>
   'st world \<Rightarrow> (json, 'st) outcome" where
  "send_channel env telegramClient bearer headers body w =
     (if env_truthy (API_BEARER_TOKEN env) \<and> or_opt bearer None \<noteq> API_BEARER_TOKEN env
      then (Inl (PlainError ''Unauthorized''), w)
      else if \<not> env_truthy (API_BEARER_TOKEN env)
      then (Inl (PlainError ''API_BEARER_TOKEN must be set to use this endpoint''), w)
      else if or_opt (providedToken headers) None \<noteq> API_BEARER_TOKEN env
      then (Inl (PlainError ''Unauthorized''), w)
      else
        (case telegramClient of
           None \<Rightarrow> (Inl (PlainError ''Telegram client not initialized''), w)
         | Some tg \<Rightarrow>
             (case send_schema_parse body of
                None \<Rightarrow> (Inl (PlainError ''ZodError''), w)
              | Some (channel, msg) \<Rightarrow>
                  (let peer = (case tg_getEntity tg (strip_at channel) of Some p \<Rightarrow> p | None \<Rightarrow> channel) in
                   case sendMessage tg peer msg w of
                     (Inr u, w') \<Rightarrow> (Inr (JObj [(''ok'', JBool True)]), w')
                   | (Inl err, w') \<Rightarrow>
                       (Inl (PlainError (''Failed to send: '' @
                               (if err_message err \<noteq> [] then err_message err else ''unknown error''))), w')))))"

section \<open>Two invocations that race\<close>


section \<open>Remote systems to run the bridge against\<close>

text \<open>
  A remote that answers the requests it receives with a fixed script of responses, one
  after the other, and with silence once the script is exhausted.
\<close>

fun scripted :: "http_response list remote" where
  "scripted [] q = (NoResponse ''no answer'', [])"
| "scripted (r # rs) q = (r, rs)"

definition start :: "'st \<Rightarrow> 'st world" where
  "start s = \<lparr>remote_state = s, requests = [], sent = [], ledger = []\<rparr>"




subsection \<open>Example inputs\<close>

text \<open>
  The conversation request the Inbound Forwarder makes for sender 12345, resolved to
  contact 42, in inbox 1; an empty page of conversations; and the answer of a support
  desk that already has a conversation with the source tag.
\<close>

definition sender_12345 :: conversation_data where
  "sender_12345 = \<lparr>cv_contact_id = ''42'', cv_inbox_id = ''1'', cv_source_id = JStr ''telegram_12345''\<rparr>"

definition empty_page :: http_response where
  "empty_page = Response 200 ''OK'' (Some (JObj [(''data'', JObj [(''payload'', JArr [])])]))"

definition source_id_taken :: json where
  "source_id_taken = JObj [(''error'', JStr ''source_id has already been taken'')]"

definition conflict_response :: http_response where
  "conflict_response = Response 422 ''Unprocessable Entity'' (Some source_id_taken)"

text \<open>
  A desk on which nothing can be found and every creation is refused, and one on which
  the creation without the source tag succeeds.
\<close>

definition refusing_script :: "http_response list" where
  "refusing_script =
     [empty_page, conflict_response, empty_page, empty_page, empty_page,
      Response 500 ''Internal Server Error'' None]"

definition retry_script :: "http_response list" where
  "retry_script =
     [empty_page, conflict_response, empty_page, empty_page, empty_page,
      Response 200 ''OK'' (Some (JObj [(''id'', JNum 9)]))]"

text \<open>
  For the server: an environment with nothing set and one with a bearer token, a chat
  transport that delivers every message and resolves no handle, and the webhook event
  of an agent's reply \<open>Hello\<close> in the conversation of sender 12345.
\<close>

definition nothing_set :: environment where
  "nothing_set =
     \<lparr>API_BEARER_TOKEN = None, CHATWOOT_WEBHOOK_TOKEN = None, CHATWOOT_IGNORE_GROUP = None,
      CHATWOOT_INBOX_ID = None, CHATWOOT_URL = None, CHATWOOT_API_KEY = None\<rparr>"

definition token_set :: environment where
  "token_set = nothing_set\<lparr>API_BEARER_TOKEN := Some ''s3cret''\<rparr>"

definition delivering :: telegram where
  "delivering = \<lparr>tg_sendMessage = (\<lambda>peer text. None), tg_getEntity = (\<lambda>handle. None)\<rparr>"


definition authorization :: "string \<Rightarrow> string \<Rightarrow> string option" where
  "authorization v h = (if h = ''authorization'' then Some v else None)"

definition channel_message :: json where
  "channel_message = JObj [(''channel'', JStr ''@news''), (''message'', JStr ''Hello'')]"

text \<open>
  For the Inbound Forwarder: the sender John Doe, a private message of his, and a desk
  that knows him as contact 42 under the name John and answers nothing after the
  contact has been updated.
\<close>

definition john_doe :: sender where
  "john_doe = \<lparr>s_id = Some ''12345'', s_username = ''jdoe'', s_firstName = ''John'',
               s_lastName = ''Doe'', s_phone = []\<rparr>"

definition private_message :: message_event where
  "private_message = \<lparr>me_text = Some ''Hi'', me_has_peer = True, me_isGroup = False,
                      me_getSender = Inr john_doe\<rparr>"









section \<open>What a remote system's listing shows\<close>











text \<open>A remote system that answers a GET without changing its state.\<close>

definition read_only_GET :: "'st remote \<Rightarrow> bool" where
  "read_only_GET R = (\<forall>s q. is_GET q \<longrightarrow> snd (R s q) = s)"

text \<open>The requests an operation issued: what it appended to the trace of the world it started in.\<close>

definition issued :: "'st world \<Rightarrow> 'st world \<Rightarrow> http_request list" where
  "issued w w' = drop (length (requests w)) (requests w')"

fun is_PUT :: "http_request \<Rightarrow> bool" where
  "is_PUT (PUT_contact n body) = True"
| "is_PUT q = False"

text \<open>
  From \<open>w\<close> to \<open>w'\<close> the bridge only issued requests that satisfy \<open>P\<close>: the trace
  of \<open>w'\<close> is that of \<open>w\<close> followed by such requests, and nothing was handed to the
  chat transport or written to the table of failed messages.
\<close>

definition grows :: "(http_request \<Rightarrow> bool) \<Rightarrow> 'st world \<Rightarrow> 'st world \<Rightarrow> bool" where
  "grows P w w' =
     (sent w' = sent w \<and> ledger w' = ledger w \<and>
      take (length (requests w)) (requests w') = requests w \<and>
      list_all P (issued w w'))"

text \<open>
  From \<open>w\<close> to \<open>w'\<close> the bridge only read from the remote system: it issued GET
  requests only, so a remote system that answers a GET without changing its state is
  in the state it was in.
\<close>

definition reads :: "'st remote \<Rightarrow> 'st world \<Rightarrow> 'st world \<Rightarrow> bool" where
  "reads R w w' = (grows is_GET w w' \<and> (read_only_GET R \<longrightarrow> remote_state w' = remote_state w))"

section \<open>Properties\<close>

subsection \<open>Facts about the HTTP capability\<close>




subsection \<open>updateContact with nothing to update\<close>

text \<open>
  Claim C10. For every contact id, \<open>updateContact\<close> on data whose name and phone
  number are each absent, not a string, or blank after trimming returns \<open>{ ok: true }\<close>
  and leaves the world as it was: no HTTP request is issued (the trace of requests is
  the same) and the remote state is the same.
\<close>

theorem updateContact_blank_is_noop:
  assumes "\<forall>s. cu_name data = JStr s \<longrightarrow> trim s = []"
      and "\<forall>s. cu_phone_number data = JStr s \<longrightarrow> trim s = []"
  shows "updateContact R contactId data w = (Inr (JObj [(''ok'', JBool True)]), w)"
proof -
  have n: "\<not> nonblank_string (cu_name data)"
    using assms(1) by (cases "cu_name data") auto
  have p: "\<not> nonblank_string (cu_phone_number data)"
    using assms(2) by (cases "cu_phone_number data") auto
  show ?thesis by (simp add: updateContact_def update_body_def n p)
qed

theorem updateContact_blank_is_noop_witness:
  "trim ''   '' = [] \<and>
   updateContact scripted (JNum 7) \<lparr>cu_name = JStr ''   '', cu_phone_number = JNum 5\<rparr>
       (start [Response 200 ''OK'' None]) =
     (Inr (JObj [(''ok'', JBool True)]), start [Response 200 ''OK'' None])"
proof -
  have t: "trim ''   '' = []" by (simp add: trim_def is_space_def)
  show ?thesis
    using t updateContact_blank_is_noop
      [of "\<lparr>cu_name = JStr ''   '', cu_phone_number = JNum 5\<rparr>" scripted "JNum 7"
          "start [Response 200 ''OK'' None]"]
    by simp
qed

subsection \<open>createContact on a conflict\<close>



subsection \<open>Answers that match no known shape\<close>

lemma request_success:
  "R (remote_state w) q = (Response status t b, s') \<Longrightarrow> 200 \<le> status \<Longrightarrow> status \<le> 299 \<Longrightarrow>
   request R q w = (Inr (case b of None \<Rightarrow> JObj [] | Some d \<Rightarrow> d),
                    w\<lparr>remote_state := s', requests := requests w @ [q]\<rparr>)"
  by (simp add: request_def Let_def)

lemma request_trace:
  "request R q w = (r, w') \<Longrightarrow> requests w' = requests w @ [q]"
  by (auto simp: request_def Let_def split: prod.splits http_response.splits if_splits)

lemma isSourceIdError_no_data: "isSourceIdError JUndefined = Inr JUndefined"
  by (simp add: isSourceIdError_def oprop_def)

lemma createContact_unrecognized:
  assumes "R (remote_state w) (POST_contacts (stringify (contact_body data))) = (Response status t (Some response), s')"
      and "200 \<le> status" "status \<le> 299" "\<not> nullish response"
      and "\<not> truthy (field response ''contact'')"
      and "\<not> truthy (oprop (field response ''payload'') ''contact'')"
      and "\<not> truthy (field response ''payload'')"
      and "\<not> truthy (field response ''id'')"
  shows "fst (createContact R data w) = Inl (PlainError ''Unexpected contact response'')"
proof -
  have "createContact_post R data w =
          (Inl (PlainError ''Unexpected contact response''),
           w\<lparr>remote_state := s', requests := requests w @ [POST_contacts (stringify (contact_body data))]\<rparr>)"
    using assms by (simp add: createContact_post_def request_success)
  then show ?thesis by (simp add: createContact_def)
qed

lemma createConversation_unrecognized:
  assumes "findExistingByContact R (parseInt (cv_contact_id data)) (parseInt (cv_inbox_id data)) w = (found, w0)"
      and "\<forall>c. found = Inr c \<longrightarrow> \<not> truthy c"
      and "R (remote_state w0) (POST_conversations (stringify (conversation_body data))) = (Response status t (Some response), s')"
      and "200 \<le> status" "status \<le> 299" "\<not> nullish response"
      and "\<not> truthy (field response ''conversation'')"
      and "\<not> truthy (oprop (field response ''payload'') ''conversation'')"
      and "\<not> truthy (field response ''id'')"
  shows "fst (createConversation R data w) = Inl (PlainError ''Unexpected conversation response'')"
proof -
  have p: "createConversation_post R data w0 =
          (Inl (PlainError ''Unexpected conversation response''),
           w0\<lparr>remote_state := s', requests := requests w0 @ [POST_conversations (stringify (conversation_body data))]\<rparr>)"
    using assms(3-) by (simp add: createConversation_post_def request_success)
  have c: "fst (createConversation_create R data w0) = Inl (PlainError ''Unexpected conversation response'')"
    by (simp add: createConversation_create_def p isSourceIdError_no_data)
  show ?thesis
    using assms(1,2) c
    by (cases found) (simp_all add: createConversation_def createConversation_resume_def)
qed

lemma updateContact_unrecognized:
  assumes "R (remote_state w) (PUT_contact (parseInt (js_string contactId)) (stringify (JObj (update_body data))))
             = (Response status t (Some response), s')"
      and "200 \<le> status" "status \<le> 299" "\<not> nullish response"
      and "update_body data \<noteq> []"
      and "\<not> truthy (field response ''contact'')"
      and "\<not> truthy (oprop (field response ''payload'') ''contact'')"
  shows "fst (updateContact R contactId data w) = Inr response"
  using assms by (simp add: updateContact_def request_success)

lemma createMessage_unrecognized:
  assumes "R (remote_state w) (POST_messages conversationId (stringify (message_body data)))
             = (Response status t (Some response), s')"
      and "200 \<le> status" "status \<le> 299" "\<not> nullish response"
      and "\<not> truthy (field response ''message'')"
      and "\<not> truthy (oprop (field response ''payload'') ''message'')"
  shows "fst (createMessage R conversationId data w) = Inr response"
  using assms by (simp add: createMessage_def request_success)


text \<open>
  Claim C6, as stated, fails: \<open>updateContact\<close> (and \<open>createMessage\<close>) end in
  \<open>return response\<close>, so a successful answer that matches none of their wrapper
  shapes is returned as it is, not turned into an error. Here the desk answers the PUT
  with \<open>{"status": "queued"}\<close> and \<open>updateContact\<close> returns that object.
\<close>

theorem updateContact_unrecognized_counterexample:
  "fst (updateContact scripted (JNum 7) \<lparr>cu_name = JStr ''John Doe'', cu_phone_number = JUndefined\<rparr>
          (start [Response 200 ''OK'' (Some (JObj [(''status'', JStr ''queued'')]))]))
   = Inr (JObj [(''status'', JStr ''queued'')])"
  by (simp add: updateContact_def update_body_def trim_def is_space_def request_def start_def oprop_def)


text \<open>
  Claim C6, amended. When the remote call completes with a success status and a
  payload (not \<open>null\<close>) that matches none of the operation's known shapes, checked in
  the operation's order: \<open>createContact\<close> throws \<open>Unexpected contact response\<close> and
  \<open>createConversation\<close> (after a look-up that found nothing) throws
  \<open>Unexpected conversation response\<close>, errors of the bridge's own that carry no status
  and are no failure of the transport; \<open>updateContact\<close> and \<open>createMessage\<close> return
  the payload itself.
\<close>

theorem unrecognized_response_shape:
  fixes R :: "'st remote"
  assumes "200 \<le> status" and "status \<le> 299" and "\<not> nullish response"
  shows
   "(R (remote_state w) (POST_contacts (stringify (contact_body cdata))) = (Response status t (Some response), s') \<and>
     \<not> truthy (field response ''contact'') \<and> \<not> truthy (oprop (field response ''payload'') ''contact'') \<and>
     \<not> truthy (field response ''payload'') \<and> \<not> truthy (field response ''id'')
     \<longrightarrow> fst (createContact R cdata w) = Inl (PlainError ''Unexpected contact response''))
    \<and>
    (findExistingByContact R (parseInt (cv_contact_id vdata)) (parseInt (cv_inbox_id vdata)) w = (found, w0) \<and>
     (\<forall>c. found = Inr c \<longrightarrow> \<not> truthy c) \<and>
     R (remote_state w0) (POST_conversations (stringify (conversation_body vdata))) = (Response status t (Some response), s') \<and>
     \<not> truthy (field response ''conversation'') \<and> \<not> truthy (oprop (field response ''payload'') ''conversation'') \<and>
     \<not> truthy (field response ''id'')
     \<longrightarrow> fst (createConversation R vdata w) = Inl (PlainError ''Unexpected conversation response''))
    \<and>
    (R (remote_state w) (PUT_contact (parseInt (js_string contactId)) (stringify (JObj (update_body udata))))
       = (Response status t (Some response), s') \<and>
     update_body udata \<noteq> [] \<and>
     \<not> truthy (field response ''contact'') \<and> \<not> truthy (oprop (field response ''payload'') ''contact'')
     \<longrightarrow> fst (updateContact R contactId udata w) = Inr response)
    \<and>
    (R (remote_state w) (POST_messages conversationId (stringify (message_body mdata)))
       = (Response status t (Some response), s') \<and>
     \<not> truthy (field response ''message'') \<and> \<not> truthy (oprop (field response ''payload'') ''message'')
     \<longrightarrow> fst (createMessage R conversationId mdata w) = Inr response)"
  using assms
  by (intro conjI impI)
     (blast intro: createContact_unrecognized createConversation_unrecognized
                   updateContact_unrecognized createMessage_unrecognized)+

theorem unrecognized_response_shape_witness:
  "fst (createContact scripted
          \<lparr>cd_name = JStr ''John Doe'', cd_phone_number = JUndefined, cd_identifier = JStr ''telegram_12345''\<rparr>
          (start [Response 200 ''OK'' (Some (JObj [(''status'', JStr ''queued'')]))]))
     = Inl (PlainError ''Unexpected contact response'') \<and>
   fst (createMessage scripted ''9''
          \<lparr>md_content = JStr ''Hello'', md_message_type = JStr ''incoming'', md_private = JUndefined\<rparr>
          (start [Response 200 ''OK'' (Some (JObj [(''status'', JStr ''queued'')]))]))
     = Inr (JObj [(''status'', JStr ''queued'')])"
proof -
  have ok: "(200::int) \<le> 200" "(200::int) \<le> 299" "\<not> nullish (JObj [(''status'', JStr ''queued'')])"
    by simp_all
  show ?thesis
    using unrecognized_response_shape
      [OF ok, where R = scripted
         and w = "start [Response 200 ''OK'' (Some (JObj [(''status'', JStr ''queued'')]))]"
         and t = "''OK''" and s' = "[]"
         and cdata = "\<lparr>cd_name = JStr ''John Doe'', cd_phone_number = JUndefined,
                          cd_identifier = JStr ''telegram_12345''\<rparr>"
         and conversationId = "''9''"
         and mdata = "\<lparr>md_content = JStr ''Hello'', md_message_type = JStr ''incoming'',
                          md_private = JUndefined\<rparr>"]
    by (simp add: start_def oprop_def)
qed

subsection \<open>The conflict whose conversation cannot be located\<close>

lemma fallbackBody_omits_source_id: "field (stringify (fallbackBody data)) ''source_id'' = JUndefined"
  by (simp add: fallbackBody_def)

lemma create_without_source_id_issued:
  "create_without_source_id R data w = (r, w') \<Longrightarrow>
   requests w' = requests w @ [POST_conversations (stringify (fallbackBody data))]"
  by (auto simp: create_without_source_id_def dest: request_trace split: prod.splits sum.splits if_splits)

lemma create_without_source_id_result:
  assumes "R (remote_state w) (POST_conversations (stringify (fallbackBody data))) = (resp, s3)"
  shows "fst (create_without_source_id R data w) =
           (case resp of
              Response status tx body \<Rightarrow>
                (let payload = (case body of None \<Rightarrow> JObj [] | Some d \<Rightarrow> d) in
                 if 200 \<le> status \<and> status \<le> 299 \<and> \<not> nullish payload \<and>
                    truthy (oprop (fallback_conversation payload) ''id'')
                 then Some (fallback_conversation payload) else None)
            | NoResponse m \<Rightarrow> None)"
  using assms
  by (auto simp: create_without_source_id_def request_def Let_def split: http_response.splits)

text \<open>
  Claim C3, as stated, fails: when the retry without \<open>source_id\<close> fails as well, the
  \<open>catch\<close> of the retry only logs and \<open>throw createErr\<close> follows, so the conflict
  error reaches the caller. Here the desk lists nothing, refuses the creation with
  422 (\<open>source_id has already been taken\<close>) and answers the retry with 500.
\<close>

theorem conflict_unlocated_counterexample:
  "fst (createConversation scripted sender_12345 (start refusing_script))
     = Inl (HttpError 422 ''Unprocessable Entity'' source_id_taken) \<and>
   last (requests (snd (createConversation scripted sender_12345 (start refusing_script))))
     = POST_conversations (JObj [(''contact_id'', JNum 42), (''inbox_id'', JNum 1),
         (''additional_attributes'', JObj [(''source_id'', JStr ''telegram_12345'')])])"
  by code_simp

text \<open>
  Claim C3, amended. If, after a source-tag conflict (status 422 with \<open>source_id\<close> in
  the error data), the fallback search locates no conversation, \<open>createConversation\<close>
  issues exactly one more request, the creating POST whose body has no top-level
  \<open>source_id\<close> field. When that retry is answered with a success status and a
  payload that carries an id (under \<open>conversation\<close>, \<open>payload.conversation\<close> or
  itself), that conversation is returned and no error reaches the caller; in every
  other case the error of the original conflict is thrown to the caller.
\<close>

theorem conflict_unlocated_retry:
  fixes R :: "'st remote"
  assumes look: "findExistingByContact R (parseInt (cv_contact_id data)) (parseInt (cv_inbox_id data)) w = (found, w0)"
      and nofound: "\<forall>c. found = Inr c \<longrightarrow> \<not> truthy c"
      and post: "R (remote_state w0) (POST_conversations (stringify (conversation_body data))) = (Response 422 t b, s1)"
      and src: "isSourceIdError (case b of None \<Rightarrow> JObj [] | Some d \<Rightarrow> d) = Inr v" "truthy v"
      and search: "search_by_source_id R (cv_source_id data) (parseInt (cv_contact_id data))
                     (w0\<lparr>remote_state := s1,
                         requests := requests w0 @ [POST_conversations (stringify (conversation_body data))]\<rparr>)
                   = (None, w2)"
      and retry: "R (remote_state w2) (POST_conversations (stringify (fallbackBody data))) = (resp, s3)"
  shows "field (stringify (fallbackBody data)) ''source_id'' = JUndefined \<and>
         issued w2 (snd (createConversation R data w)) = [POST_conversations (stringify (fallbackBody data))] \<and>
         fst (createConversation R data w) =
           (case resp of
              Response status tx body \<Rightarrow>
                (let payload = (case body of None \<Rightarrow> JObj [] | Some d \<Rightarrow> d) in
                 if 200 \<le> status \<and> status \<le> 299 \<and> \<not> nullish payload \<and>
                    truthy (oprop (fallback_conversation payload) ''id'')
                 then Inr (fallback_conversation payload)
                 else Inl (HttpError 422 t (case b of None \<Rightarrow> JObj [] | Some d \<Rightarrow> d)))
            | NoResponse m \<Rightarrow> Inl (HttpError 422 t (case b of None \<Rightarrow> JObj [] | Some d \<Rightarrow> d)))"
proof -
  let ?err = "HttpError 422 t (case b of None \<Rightarrow> JObj [] | Some d \<Rightarrow> d)"
  let ?w1 = "w0\<lparr>remote_state := s1,
                 requests := requests w0 @ [POST_conversations (stringify (conversation_body data))]\<rparr>"
  obtain r3 w3 where cw: "create_without_source_id R data w2 = (r3, w3)"
    by (cases "create_without_source_id R data w2")
  have p: "createConversation_post R data w0 = (Inl ?err, ?w1)"
    using post by (simp add: createConversation_post_def request_def Let_def)
  have cc: "createConversation_create R data w0 =
              (case r3 of Some conv \<Rightarrow> (Inr conv, w3) | None \<Rightarrow> (Inl ?err, w3))"
    using src search cw by (simp add: createConversation_create_def p)
  have whole: "createConversation R data w = createConversation_create R data w0"
    using look nofound by (cases found) (simp_all add: createConversation_def createConversation_resume_def)
  have tr: "requests w3 = requests w2 @ [POST_conversations (stringify (fallbackBody data))]"
    using create_without_source_id_issued [OF cw] .
  have r3: "r3 = (case resp of
              Response status tx body \<Rightarrow>
                (let payload = (case body of None \<Rightarrow> JObj [] | Some d \<Rightarrow> d) in
                 if 200 \<le> status \<and> status \<le> 299 \<and> \<not> nullish payload \<and>
                    truthy (oprop (fallback_conversation payload) ''id'')
                 then Some (fallback_conversation payload) else None)
            | NoResponse m \<Rightarrow> None)"
    using create_without_source_id_result [where R=R and w=w2 and data=data, OF retry] cw by simp
  have snd_eq: "snd (createConversation R data w) = w3"
    by (simp add: whole cc split: option.splits)
  have fst_eq: "fst (createConversation R data w) = (case r3 of Some conv \<Rightarrow> Inr conv | None \<Rightarrow> Inl ?err)"
    by (simp add: whole cc split: option.splits)
  show ?thesis
    apply (intro conjI)
      apply (rule fallbackBody_omits_source_id)
     apply (simp add: snd_eq issued_def tr)
    apply (simp add: fst_eq r3 Let_def split: http_response.splits)
    done
qed

theorem conflict_unlocated_retry_witness:
  "fst (createConversation scripted sender_12345 (start retry_script)) = Inr (JObj [(''id'', JNum 9)])"
proof -
  let ?look = "findExistingByContact scripted (parseInt (cv_contact_id sender_12345))
                 (parseInt (cv_inbox_id sender_12345)) (start retry_script)"
  let ?w1 = "(snd ?look)\<lparr>remote_state := drop 2 retry_script,
               requests := requests (snd ?look) @ [POST_conversations (stringify (conversation_body sender_12345))]\<rparr>"
  let ?search = "search_by_source_id scripted (cv_source_id sender_12345)
                   (parseInt (cv_contact_id sender_12345)) ?w1"
  have f: "fst ?look = Inr JUndefined" by code_simp
  have look: "?look = (Inr JUndefined, snd ?look)"
    using f by (simp add: prod_eq_iff)
  have nofound: "\<forall>c. (Inr JUndefined :: error + json) = Inr c \<longrightarrow> \<not> truthy c" by simp
  have post: "scripted (remote_state (snd ?look)) (POST_conversations (stringify (conversation_body sender_12345)))
                = (Response 422 ''Unprocessable Entity'' (Some source_id_taken), drop 2 retry_script)"
    by code_simp
  have src: "isSourceIdError (case Some source_id_taken of None \<Rightarrow> JObj [] | Some d \<Rightarrow> d) = Inr (JBool True)"
    by code_simp
  have g: "fst ?search = None" by code_simp
  have search: "?search = (None, snd ?search)"
    using g by (simp add: prod_eq_iff)
  have retry: "scripted (remote_state (snd ?search)) (POST_conversations (stringify (fallbackBody sender_12345)))
                 = (Response 200 ''OK'' (Some (JObj [(''id'', JNum 9)])), [])"
    by code_simp
  have tr: "truthy (JBool True)" by simp
  from conflict_unlocated_retry
         [where R = scripted, OF look nofound post src tr search retry]
  show ?thesis
    by (simp add: fallback_conversation_def js_or_def oprop_def)
qed

subsection \<open>The direct-send endpoint\<close>

lemma is_space_blank: "is_space CHR '' ''"
  by (simp add: is_space_def)

lemma bearer_header_shape:
  assumes "prefix ''Bearer '' h" and "dropWhile is_space (drop 6 h) = token"
  shows "\<exists>ws. h = ''Bearer '' @ ws @ token \<and> list_all is_space ws"
proof -
  from assms(1) obtain rest where h: "h = ''Bearer '' @ rest"
    by (auto simp: prefix_def)
  have "dropWhile is_space rest = token"
    using assms(2) by (simp add: h is_space_blank)
  then have "rest = takeWhile is_space rest @ token"
    by (metis takeWhile_dropWhile_id)
  moreover have "list_all is_space (takeWhile is_space rest)"
    by (simp add: list_all_iff) (meson set_takeWhileD)
  ultimately show ?thesis using h by (metis)
qed

lemma providedToken_shape:
  assumes "providedToken headers = Some token"
  shows "\<exists>ws. or_opt (headers ''authorization'') (headers ''Authorization'') = Some (''Bearer '' @ ws @ token) \<and>
              list_all is_space ws"
proof -
  from assms obtain h where a: "or_opt (headers ''authorization'') (headers ''Authorization'') = Some h"
    and p: "prefix ''Bearer '' h" and d: "dropWhile is_space (drop 6 h) = token"
    by (auto simp: providedToken_def split: option.splits if_splits)
  from bearer_header_shape [OF p d] a show ?thesis by auto
qed


text \<open>
  Claim C9. \<open>POST /telegram/send-channel\<close>: when \<open>API_BEARER_TOKEN\<close> is not set (or
  empty), the endpoint throws before anything else, whatever bearer token, headers and
  body the request carries, and the world is unchanged. When a token is set, a request
  whose \<open>Authorization\<close> header is not \<open>Bearer\<close>, white space, and exactly that token
  is rejected with \<open>Unauthorized\<close> and nothing is sent; a request that carries the
  token is not rejected as unauthorized.
\<close>

theorem send_channel_requires_token:
  "(\<not> env_truthy (API_BEARER_TOKEN env) \<longrightarrow>
      send_channel env telegramClient bearer headers body w =
        (Inl (PlainError ''API_BEARER_TOKEN must be set to use this endpoint''), w))
   \<and>
   (API_BEARER_TOKEN env = Some token \<and> token \<noteq> [] \<and>
    \<not> (\<exists>ws. or_opt (headers ''authorization'') (headers ''Authorization'') = Some (''Bearer '' @ ws @ token) \<and>
              list_all is_space ws) \<longrightarrow>
      send_channel env telegramClient bearer headers body w = (Inl (PlainError ''Unauthorized''), w))
   \<and>
   (API_BEARER_TOKEN env = Some token \<and> token \<noteq> [] \<and> \<not> is_space (hd token) \<and>
    bearer = Some token \<and> headers ''authorization'' = Some (''Bearer '' @ token) \<longrightarrow>
      send_channel env telegramClient bearer headers body w \<noteq> (Inl (PlainError ''Unauthorized''), w))"
proof (intro conjI impI)
  assume "\<not> env_truthy (API_BEARER_TOKEN env)"
  then show "send_channel env telegramClient bearer headers body w =
        (Inl (PlainError ''API_BEARER_TOKEN must be set to use this endpoint''), w)"
    by (simp add: send_channel_def)
next
  assume a: "API_BEARER_TOKEN env = Some token \<and> token \<noteq> [] \<and>
    \<not> (\<exists>ws. or_opt (headers ''authorization'') (headers ''Authorization'') = Some (''Bearer '' @ ws @ token) \<and>
              list_all is_space ws)"
  then have set: "env_truthy (API_BEARER_TOKEN env)" by (simp add: env_truthy_def)
  have "providedToken headers \<noteq> Some token"
    using a providedToken_shape [of headers token] by blast
  then have "or_opt (providedToken headers) None \<noteq> API_BEARER_TOKEN env"
    using a by (auto simp: or_opt_def split: option.splits if_splits)
  then show "send_channel env telegramClient bearer headers body w = (Inl (PlainError ''Unauthorized''), w)"
    using set by (simp add: send_channel_def)
next
  assume a: "API_BEARER_TOKEN env = Some token \<and> token \<noteq> [] \<and> \<not> is_space (hd token) \<and>
    bearer = Some token \<and> headers ''authorization'' = Some (''Bearer '' @ token)"
  then have set: "env_truthy (API_BEARER_TOKEN env)" by (simp add: env_truthy_def)
  have dw: "dropWhile is_space token = token"
    using a by (cases token) auto
  have "providedToken headers = Some token"
    using a dw by (simp add: providedToken_def or_opt_def is_space_blank)
  then have p: "or_opt (providedToken headers) None = API_BEARER_TOKEN env"
    using a by (simp add: or_opt_def)
  have b: "or_opt bearer None = API_BEARER_TOKEN env"
    using a by (simp add: or_opt_def)
  show "send_channel env telegramClient bearer headers body w \<noteq> (Inl (PlainError ''Unauthorized''), w)"
    using set p b
    by (auto simp: send_channel_def sendMessage_def Let_def
             split: option.splits prod.splits sum.splits)
qed

theorem send_channel_requires_token_witness:
  "send_channel nothing_set (Some delivering) (Some ''s3cret'') (authorization ''Bearer s3cret'')
       channel_message (start ())
     = (Inl (PlainError ''API_BEARER_TOKEN must be set to use this endpoint''), start ()) \<and>
   send_channel token_set (Some delivering) (Some ''s3cret'') (authorization ''Bearer wrong'')
       channel_message (start ())
     = (Inl (PlainError ''Unauthorized''), start ()) \<and>
   send_channel token_set (Some delivering) (Some ''s3cret'') (authorization ''Bearer s3cret'')
       channel_message (start ())
     \<noteq> (Inl (PlainError ''Unauthorized''), start ())"
proof -
  have unset: "\<not> env_truthy (API_BEARER_TOKEN nothing_set)"
    by (simp add: nothing_set_def env_truthy_def)
  have tok: "API_BEARER_TOKEN token_set = Some ''s3cret''"
    by (simp add: token_set_def)
  have wrong: "\<not> (\<exists>ws. or_opt (authorization ''Bearer wrong'' ''authorization'')
                           (authorization ''Bearer wrong'' ''Authorization'') = Some (''Bearer '' @ ws @ ''s3cret'') \<and>
                        list_all is_space ws)"
  proof
    assume "\<exists>ws. or_opt (authorization ''Bearer wrong'' ''authorization'')
                           (authorization ''Bearer wrong'' ''Authorization'') = Some (''Bearer '' @ ws @ ''s3cret'') \<and>
                        list_all is_space ws"
    then obtain ws where "''wrong'' = ws @ ''s3cret''"
      by (auto simp: authorization_def or_opt_def)
    then have "length ''wrong'' = length (ws @ ''s3cret'')" by (rule arg_cong)
    then show False by simp
  qed
  have right: "\<not> is_space (hd ''s3cret'')" "authorization ''Bearer s3cret'' ''authorization'' = Some (''Bearer '' @ ''s3cret'')"
    by (simp_all add: is_space_def authorization_def)
  show ?thesis
    using send_channel_requires_token
            [of nothing_set "Some delivering" "Some ''s3cret''" "authorization ''Bearer s3cret''"
                channel_message "start ()" "''s3cret''"]
          send_channel_requires_token
            [of token_set "Some delivering" "Some ''s3cret''" "authorization ''Bearer wrong''"
                channel_message "start ()" "''s3cret''"]
          send_channel_requires_token
            [of token_set "Some delivering" "Some ''s3cret''" "authorization ''Bearer s3cret''"
                channel_message "start ()" "''s3cret''"]
          unset tok wrong right
    by simp
qed

subsection \<open>The Outbound Forwarder\<close>















lemma chatwoot_webhook_unauthorized:
  "env_truthy (API_BEARER_TOKEN env) \<Longrightarrow> or_opt bearer None \<noteq> API_BEARER_TOKEN env \<Longrightarrow>
   chatwoot_webhook R env telegramClient bearer headers queryToken body w = (Inl (PlainError ''Unauthorized''), w)"
  by (simp add: chatwoot_webhook_def)



subsection \<open>What the operations leave untouched\<close>

lemma grows_iff:
  "grows P w w' \<longleftrightarrow>
     sent w' = sent w \<and> ledger w' = ledger w \<and> (\<exists>qs. requests w' = requests w @ qs \<and> list_all P qs)"
proof
  assume g: "grows P w w'"
  then have "requests w' = requests w @ issued w w'"
    unfolding grows_def issued_def by (metis append_take_drop_id)
  with g show "sent w' = sent w \<and> ledger w' = ledger w \<and> (\<exists>qs. requests w' = requests w @ qs \<and> list_all P qs)"
    unfolding grows_def by blast
next
  assume "sent w' = sent w \<and> ledger w' = ledger w \<and> (\<exists>qs. requests w' = requests w @ qs \<and> list_all P qs)"
  then show "grows P w w'"
    by (auto simp: grows_def issued_def)
qed

lemma grows_refl: "grows P w w"
  by (simp add: grows_iff)

lemma grows_trans: "grows P w w' \<Longrightarrow> grows P w' w'' \<Longrightarrow> grows P w w''"
  by (auto simp: grows_iff)

lemma grows_mono: "grows P w w' \<Longrightarrow> (\<And>q. P q \<Longrightarrow> Q q) \<Longrightarrow> grows Q w w'"
  by (auto simp: grows_iff list_all_iff)


lemma grows_all_issued: "grows P w w' \<Longrightarrow> list_all P (issued w w')"
  by (simp add: grows_def)

lemma request_grows: "request R q w = (r, w') \<Longrightarrow> P q \<Longrightarrow> grows P w w'"
  by (auto simp: grows_iff request_def Let_def split: prod.splits http_response.splits if_splits)


lemma request_state:
  "request R q w = (r, w') \<Longrightarrow> remote_state w' = snd (R (remote_state w) q)"
  by (auto simp: request_def Let_def split: prod.splits http_response.splits if_splits)

lemma reads_refl: "reads R w w"
  by (simp add: reads_def grows_refl)

lemma reads_trans: "reads R w w' \<Longrightarrow> reads R w' w'' \<Longrightarrow> reads R w w''"
  unfolding reads_def using grows_trans [of is_GET w w' w''] by simp

lemma request_reads: "request R q w = (r, w') \<Longrightarrow> is_GET q \<Longrightarrow> reads R w w'"
  by (simp add: reads_def request_grows request_state read_only_GET_def)

lemma reads_grows: "reads R w w' \<Longrightarrow> grows (\<lambda>q. \<not> is_PUT q) w w'"
proof -
  assume r: "reads R w w'"
  have "is_GET q \<Longrightarrow> \<not> is_PUT q" for q by (cases q) auto
  with r show "grows (\<lambda>q. \<not> is_PUT q) w w'"
    unfolding reads_def using grows_mono [of is_GET w w' "\<lambda>q. \<not> is_PUT q"] by blast
qed

lemma findExistingByContact_pages_reads:
  "findExistingByContact_pages R c i ps w = (r, w') \<Longrightarrow> reads R w w'"
proof (induction ps arbitrary: w)
  case Nil
  then show ?case by (simp add: reads_refl)
next
  case (Cons p ps)
  obtain r1 w1 where rq: "request R (GET_conversations_inbox i p) w = (r1, w1)"
    by (cases "request R (GET_conversations_inbox i p) w")
  have g1: "reads R w w1" using request_reads [OF rq] by simp
  from Cons.prems rq have "w' = w1 \<or> findExistingByContact_pages R c i ps w1 = (r, w')"
    by (auto simp: Let_def split: sum.splits if_splits)
  then show ?case
    using g1 Cons.IH reads_trans by blast
qed

lemma findExistingByContact_reads:
  "findExistingByContact R c i w = (r, w') \<Longrightarrow> reads R w w'"
  unfolding findExistingByContact_def by (rule findExistingByContact_pages_reads)

lemma source_list_scan_reads:
  "source_list_scan R k ps w = (r, w') \<Longrightarrow> reads R w w'"
proof (induction ps arbitrary: w)
  case Nil
  then show ?case by (simp add: reads_refl)
next
  case (Cons p ps)
  obtain r1 w1 where rq: "request R (GET_conversations_all p) w = (r1, w1)"
    by (cases "request R (GET_conversations_all p) w")
  have g1: "reads R w w1" using request_reads [OF rq] by simp
  from Cons.prems rq have "w' = w1 \<or> source_list_scan R k ps w1 = (r, w')"
    by (auto simp: Let_def split: sum.splits if_splits)
  then show ?case
    using g1 Cons.IH reads_trans by blast
qed

lemma deep_check_reads:
  "deep_check R k cs w = (r, w') \<Longrightarrow> reads R w w'"
proof (induction cs arbitrary: w)
  case Nil
  then show ?case by (simp add: reads_refl)
next
  case (Cons c cs)
  show ?case
  proof (cases "nullish c")
    case True
    with Cons.prems show ?thesis by (simp add: reads_refl)
  next
    case False
    obtain r1 w1 where rq: "request R (GET_conversation (js_string (field c ''id''))) w = (r1, w1)"
      by (cases "request R (GET_conversation (js_string (field c ''id''))) w")
    have g1: "reads R w w1" using request_reads [OF rq] by simp
    from Cons.prems rq False have "w' = w1 \<or> deep_check R k cs w1 = (r, w')"
      by (auto simp: getConversation_def split: sum.splits if_splits)
    then show ?thesis
      using g1 Cons.IH reads_trans by blast
  qed
qed

lemma deep_scan_reads:
  "deep_scan R k ps w = (r, w') \<Longrightarrow> reads R w w'"
proof (induction ps arbitrary: w)
  case Nil
  then show ?case by (simp add: reads_refl)
next
  case (Cons p ps)
  obtain r1 w1 where rq: "request R (GET_conversations_all p) w = (r1, w1)"
    by (cases "request R (GET_conversations_all p) w")
  have g1: "reads R w w1" using request_reads [OF rq] by simp
  show ?case
  proof (cases r1)
    case (Inl e)
    with Cons.prems rq have "w' = w1" by simp
    with g1 show ?thesis by simp
  next
    case (Inr list)
    obtain r2 w2 where dc: "deep_check R k (parseConversations list) w1 = (r2, w2)"
      by (cases "deep_check R k (parseConversations list) w1")
    have g2: "reads R w w2" using g1 deep_check_reads [OF dc] reads_trans by blast
    from Cons.prems rq Inr dc have "w' = w2 \<or> deep_scan R k ps w2 = (r, w')"
      by (auto simp: Let_def split: sum.splits option.splits if_splits)
    then show ?thesis
      using g2 Cons.IH reads_trans by blast
  qed
qed

lemma contact_filtered_search_reads:
  "contact_filtered_search R k c w = (r, w') \<Longrightarrow> reads R w w'"
proof -
  assume a: "contact_filtered_search R k c w = (r, w')"
  obtain r1 w1 where rq: "request R (GET_conversations_contact c) w = (r1, w1)"
    by (cases "request R (GET_conversations_contact c) w")
  have g1: "reads R w w1" using request_reads [OF rq] by simp
  show "reads R w w'"
  proof (cases r1)
    case (Inl e)
    with a rq have "w' = w1" by (simp add: contact_filtered_search_def)
    with g1 show ?thesis by simp
  next
    case (Inr byContact)
    obtain r2 w2 where dc: "deep_check R k (parseConversations byContact) w1 = (r2, w2)"
      by (cases "deep_check R k (parseConversations byContact) w1")
    from a rq Inr dc have "w' = w1 \<or> w' = w2"
      by (auto simp: contact_filtered_search_def Let_def split: sum.splits if_splits)
    then show ?thesis
      using g1 deep_check_reads [OF dc] reads_trans by blast
  qed
qed

lemma search_by_source_id_reads:
  "search_by_source_id R k c w = (r, w') \<Longrightarrow> reads R w w'"
proof -
  assume a: "search_by_source_id R k c w = (r, w')"
  obtain r1 w1 where s1: "source_list_scan R k [1, 2, 3, 4, 5] w = (r1, w1)"
    by (cases "source_list_scan R k [1, 2, 3, 4, 5] w")
  obtain r2 w2 where s2: "deep_scan R k [1, 2, 3, 4, 5] w1 = (r2, w2)"
    by (cases "deep_scan R k [1, 2, 3, 4, 5] w1")
  obtain r3 w3 where s3: "contact_filtered_search R k c w2 = (r3, w3)"
    by (cases "contact_filtered_search R k c w2")
  have g1: "reads R w w1" by (rule source_list_scan_reads [OF s1])
  have g2: "reads R w w2" using g1 deep_scan_reads [OF s2] reads_trans by blast
  have g3: "reads R w w3" using g2 contact_filtered_search_reads [OF s3] reads_trans by blast
  from a s1 s2 s3 have "w' = w1 \<or> w' = w2 \<or> w' = w3"
    by (auto simp: search_by_source_id_def split: sum.splits option.splits)
  then show ?thesis using g1 g2 g3 by blast
qed

subsection \<open>What the operations issue\<close>

lemma createConversation_post_grows:
  "createConversation_post R data w = (r, w') \<Longrightarrow> grows (\<lambda>q. \<not> is_PUT q) w w'"
proof -
  assume a: "createConversation_post R data w = (r, w')"
  obtain r1 w1 where rq: "request R (POST_conversations (stringify (conversation_body data))) w = (r1, w1)"
    by (cases "request R (POST_conversations (stringify (conversation_body data))) w")
  from a rq have "w' = w1"
    by (auto simp: createConversation_post_def split: sum.splits if_splits)
  then show ?thesis using request_grows [OF rq, of "\<lambda>q. \<not> is_PUT q"] by simp
qed

lemma create_without_source_id_grows:
  "create_without_source_id R data w = (r, w') \<Longrightarrow> grows (\<lambda>q. \<not> is_PUT q) w w'"
proof -
  assume a: "create_without_source_id R data w = (r, w')"
  obtain r1 w1 where rq: "request R (POST_conversations (stringify (fallbackBody data))) w = (r1, w1)"
    by (cases "request R (POST_conversations (stringify (fallbackBody data))) w")
  from a rq have "w' = w1"
    by (auto simp: create_without_source_id_def split: sum.splits if_splits)
  then show ?thesis using request_grows [OF rq, of "\<lambda>q. \<not> is_PUT q"] by simp
qed

lemma createConversation_create_grows:
  "createConversation_create R data w = (r, w') \<Longrightarrow> grows (\<lambda>q. \<not> is_PUT q) w w'"
proof -
  assume a: "createConversation_create R data w = (r, w')"
  obtain r1 w1 where p: "createConversation_post R data w = (r1, w1)"
    by (cases "createConversation_post R data w")
  obtain r2 w2 where s: "search_by_source_id R (cv_source_id data) (parseInt (cv_contact_id data)) w1 = (r2, w2)"
    by (cases "search_by_source_id R (cv_source_id data) (parseInt (cv_contact_id data)) w1")
  obtain r3 w3 where c: "create_without_source_id R data w2 = (r3, w3)"
    by (cases "create_without_source_id R data w2")
  have g1: "grows (\<lambda>q. \<not> is_PUT q) w w1" by (rule createConversation_post_grows [OF p])
  have g2: "grows (\<lambda>q. \<not> is_PUT q) w w2"
    using g1 reads_grows [OF search_by_source_id_reads [OF s]] grows_trans by blast
  have g3: "grows (\<lambda>q. \<not> is_PUT q) w w3"
    using g2 create_without_source_id_grows [OF c] grows_trans by blast
  from a p s c have "w' = w1 \<or> w' = w2 \<or> w' = w3"
    by (auto simp: createConversation_create_def split: sum.splits option.splits if_splits)
  then show ?thesis using g1 g2 g3 by blast
qed

lemma createConversation_grows:
  "createConversation R data w = (r, w') \<Longrightarrow> grows (\<lambda>q. \<not> is_PUT q) w w'"
proof -
  assume a: "createConversation R data w = (r, w')"
  obtain f w0 where l: "findExistingByContact R (parseInt (cv_contact_id data)) (parseInt (cv_inbox_id data)) w = (f, w0)"
    by (cases "findExistingByContact R (parseInt (cv_contact_id data)) (parseInt (cv_inbox_id data)) w")
  have g0: "grows (\<lambda>q. \<not> is_PUT q) w w0"
    by (rule reads_grows [OF findExistingByContact_reads [OF l]])
  from a l have "w' = w0 \<or> createConversation_create R data w0 = (r, w')"
    by (auto simp: createConversation_def createConversation_resume_def split: sum.splits if_splits)
  then show ?thesis
    using g0 createConversation_create_grows grows_trans by blast
qed

lemma createContact_grows:
  "createContact R data w = (r, w') \<Longrightarrow> grows (\<lambda>q. \<not> is_PUT q) w w'"
proof -
  assume a: "createContact R data w = (r, w')"
  let ?q = "js_string (js_or (cd_identifier data) (JStr []))"
  obtain r1 w1 where p: "request R (POST_contacts (stringify (contact_body data))) w = (r1, w1)"
    by (cases "request R (POST_contacts (stringify (contact_body data))) w")
  obtain r2 w2 where s: "request R (GET_contacts_search ?q) w1 = (r2, w2)"
    by (cases "request R (GET_contacts_search ?q) w1")
  obtain r3 w3 where i: "request R (GET_contacts_identifier ?q) w2 = (r3, w3)"
    by (cases "request R (GET_contacts_identifier ?q) w2")
  have g1: "grows (\<lambda>q. \<not> is_PUT q) w w1" using request_grows [OF p, of "\<lambda>q. \<not> is_PUT q"] by simp
  have g2: "grows (\<lambda>q. \<not> is_PUT q) w w2"
    using g1 request_grows [OF s, of "\<lambda>q. \<not> is_PUT q"] grows_trans by fastforce
  have g3: "grows (\<lambda>q. \<not> is_PUT q) w w3"
    using g2 request_grows [OF i, of "\<lambda>q. \<not> is_PUT q"] grows_trans by fastforce
  have post: "snd (createContact_post R data w) = w1"
    using p by (auto simp: createContact_post_def split: sum.splits if_splits)
  from a post s i have "w' = w1 \<or> w' = w2 \<or> w' = w3"
    by (cases "createContact_post R data w")
       (auto simp: createContact_def Let_def split: sum.splits if_splits)
  then show ?thesis using g1 g2 g3 by blast
qed

lemma createMessage_grows:
  "createMessage R conversationId data w = (r, w') \<Longrightarrow> grows (\<lambda>q. \<not> is_PUT q) w w'"
proof -
  assume a: "createMessage R conversationId data w = (r, w')"
  obtain r1 w1 where rq: "request R (POST_messages conversationId (stringify (message_body data))) w = (r1, w1)"
    by (cases "request R (POST_messages conversationId (stringify (message_body data))) w")
  from a rq have "w' = w1"
    by (auto simp: createMessage_def split: sum.splits if_splits)
  then show ?thesis using request_grows [OF rq, of "\<lambda>q. \<not> is_PUT q"] by simp
qed

lemma updateContact_grows:
  "updateContact R contactId data w = (r, w') \<Longrightarrow> grows (\<lambda>q. True) w w'"
proof -
  assume a: "updateContact R contactId data w = (r, w')"
  obtain r1 w1 where rq: "request R (PUT_contact (parseInt (js_string contactId)) (stringify (JObj (update_body data)))) w = (r1, w1)"
    by (cases "request R (PUT_contact (parseInt (js_string contactId)) (stringify (JObj (update_body data)))) w")
  from a rq have "w' = w \<or> w' = w1"
    by (auto simp: updateContact_def split: sum.splits if_splits)
  then show ?thesis using request_grows [OF rq, of "\<lambda>q. True"] grows_refl by auto
qed

lemma sync_contact_grows:
  "grows (\<lambda>q. True) w (sync_contact R contact contactId fullName phone w)"
proof (cases "needed_update contact fullName phone")
  case (Inl e)
  then show ?thesis by (simp add: sync_contact_def grows_refl)
next
  case (Inr u)
  show ?thesis
  proof (cases u)
    case None
    with Inr show ?thesis by (simp add: sync_contact_def grows_refl)
  next
    case (Some upd)
    have "grows (\<lambda>q. True) w (snd (updateContact R contactId upd w))"
      using updateContact_grows [of R contactId upd w] by (cases "updateContact R contactId upd w") simp
    with Inr Some show ?thesis by (simp add: sync_contact_def)
  qed
qed

text \<open>What remains of \<open>forwardToCharwoot\<close> once the contact is synchronised.\<close>

lemma forwardToCharwoot_tail:
  assumes c: "createContact R
             \<lparr>cd_name = JStr (fullName_of (s_firstName sd) (s_lastName sd) (s_username sd)),
              cd_phone_number = (if s_phone sd \<noteq> [] then JStr (s_phone sd) else JUndefined),
              cd_identifier = JStr (identity_key (s_id sd))\<rparr> w = (Inr contact, w1)"
      and t: "truthy (js_or (js_or (oprop contact ''id'') (oprop contact ''contact_id''))
                                   (oprop (oprop contact ''contact'') ''id''))"
  shows "grows (\<lambda>q. \<not> is_PUT q)
           (sync_contact R contact
              (js_or (js_or (oprop contact ''id'') (oprop contact ''contact_id'')) (oprop (oprop contact ''contact'') ''id''))
              (fullName_of (s_firstName sd) (s_lastName sd) (s_username sd)) (s_phone sd) w1)
           (snd (forwardToCharwoot R inboxId sd text w))"
proof -
  let ?cid = "js_or (js_or (oprop contact ''id'') (oprop contact ''contact_id'')) (oprop (oprop contact ''contact'') ''id'')"
  let ?fn = "fullName_of (s_firstName sd) (s_lastName sd) (s_username sd)"
  let ?w2 = "sync_contact R contact ?cid ?fn (s_phone sd) w1"
  let ?cv = "\<lparr>cv_contact_id = js_string ?cid, cv_inbox_id = inboxId, cv_source_id = JStr (identity_key (s_id sd))\<rparr>"
  have nn: "\<not> nullish contact"
    using t by (auto simp: oprop_def js_or_def split: if_splits)
  obtain r3 w3 where cc: "createConversation R ?cv ?w2 = (r3, w3)"
    by (cases "createConversation R ?cv ?w2")
  have g3: "grows (\<lambda>q. \<not> is_PUT q) ?w2 w3" by (rule createConversation_grows [OF cc])
  let ?md = "\<lparr>md_content = JStr text, md_message_type = JStr ''incoming'', md_private = JUndefined\<rparr>"
  have eq: "forwardToCharwoot R inboxId sd text w =
      (case r3 of
         Inl e \<Rightarrow> (Inl e, w3)
       | Inr conversation \<Rightarrow>
           if nullish conversation
           then (Inl (TypeError ''null is not an object (evaluating conversation.id)''), w3)
           else if \<not> truthy (js_or (oprop conversation ''id'') (oprop conversation ''conversation_id''))
           then (Inl (PlainError ''Conversation creation returned no id''), w3)
           else (case createMessage R (js_string (js_or (oprop conversation ''id'') (oprop conversation ''conversation_id''))) ?md w3 of
                   (Inl e, w4) \<Rightarrow> (Inl e, w4)
                 | (Inr m, w4) \<Rightarrow> (Inr (), w4)))"
    using c t nn cc by (simp add: forwardToCharwoot_def Let_def split: sum.splits)
  show ?thesis
  proof (cases r3)
    case (Inl e)
    then show ?thesis using eq g3 by simp
  next
    case (Inr conversation)
    let ?q = "js_string (js_or (oprop conversation ''id'') (oprop conversation ''conversation_id''))"
    obtain r4 w4 where cm: "createMessage R ?q ?md w3 = (r4, w4)"
      by (cases "createMessage R ?q ?md w3")
    have g4: "grows (\<lambda>q. \<not> is_PUT q) ?w2 w4"
      using g3 createMessage_grows [OF cm] grows_trans by blast
    have "snd (forwardToCharwoot R inboxId sd text w) = w3 \<or> snd (forwardToCharwoot R inboxId sd text w) = w4"
      using eq Inr cm by (cases r4) (simp_all split: if_splits)
    then show ?thesis using g3 g4 by auto
  qed
qed

lemma forwardToCharwoot_grows:
  "grows (\<lambda>q. True) w (snd (forwardToCharwoot R inboxId sd text w))"
proof -
  let ?cd = "\<lparr>cd_name = JStr (fullName_of (s_firstName sd) (s_lastName sd) (s_username sd)),
              cd_phone_number = (if s_phone sd \<noteq> [] then JStr (s_phone sd) else JUndefined),
              cd_identifier = JStr (identity_key (s_id sd))\<rparr>"
  obtain r1 w1 where c: "createContact R ?cd w = (r1, w1)" by (cases "createContact R ?cd w")
  have g1: "grows (\<lambda>q. True) w w1"
    using grows_mono [OF createContact_grows [OF c], of "\<lambda>q. True"] by simp
  show ?thesis
  proof (cases r1)
    case (Inl e)
    then have "snd (forwardToCharwoot R inboxId sd text w) = w1"
      using c by (simp add: forwardToCharwoot_def Let_def)
    with g1 show ?thesis by simp
  next
    case (Inr contact)
    let ?cid = "js_or (js_or (oprop contact ''id'') (oprop contact ''contact_id'')) (oprop (oprop contact ''contact'') ''id'')"
    show ?thesis
    proof (cases "truthy ?cid")
      case True
      let ?w2 = "sync_contact R contact ?cid (fullName_of (s_firstName sd) (s_lastName sd) (s_username sd)) (s_phone sd) w1"
      have t: "grows (\<lambda>q. True) ?w2 (snd (forwardToCharwoot R inboxId sd text w))"
        using grows_mono [OF forwardToCharwoot_tail [OF c [unfolded Inr] True], of "\<lambda>q. True"] by simp
      have s: "grows (\<lambda>q. True) w1 ?w2" by (rule sync_contact_grows)
      show ?thesis
        using grows_trans [OF grows_trans [OF g1 s] t] .
    next
      case False
      then have "snd (forwardToCharwoot R inboxId sd text w) = w1"
        using c Inr by (simp add: forwardToCharwoot_def Let_def)
      with g1 show ?thesis by simp
    qed
  qed
qed


subsection \<open>A forwarding failure\<close>

text \<open>
  Claim C4, as stated, fails: nothing in the Inbound Forwarder calls
  \<open>recordFailedMessage\<close>. \<open>forwardToCharwoot\<close> logs the error and throws it again,
  and the message handler catches and logs it. Here the support desk does not answer:
  contact resolution fails, and the table of failed messages is still empty.
\<close>

theorem forwarding_failure_counterexample:
  "fst (forwardToCharwoot scripted ''1'' john_doe ''Hi'' (start [])) = Inl (FetchError ''no answer'') \<and>
   ledger (snd (message_handler scripted nothing_set True private_message (start []))) = []"
  by code_simp


text \<open>
  Claim C4, amended. For every inbound chat message, whatever the remote system
  answers and whichever step of the forwarding fails, the message handler returns
  normally (the error \<open>forwardToCharwoot\<close> throws again is caught and logged there),
  so a forwarding failure never interrupts the message loop; and no Failure Record is
  written: the table of failed messages is as it was.
\<close>

theorem message_handler_never_raises:
  "fst (message_handler R env chatwoot ev w) = Inr () \<and>
   ledger (snd (message_handler R env chatwoot ev w)) = ledger w \<and>
   sent (snd (message_handler R env chatwoot ev w)) = sent w"
proof -
  have l: "ledger (snd (forwardToCharwoot R inboxId sd body w)) = ledger w"
          "sent (snd (forwardToCharwoot R inboxId sd body w)) = sent w" for inboxId sd body
    using forwardToCharwoot_grows [of w R inboxId sd body] by (simp_all add: grows_def)
  show ?thesis
    by (simp add: message_handler_def case_prod_beta l split: sum.splits option.splits)
qed

theorem message_handler_never_raises_witness:
  "fst (message_handler scripted nothing_set True private_message (start [])) = Inr () \<and>
   ledger (snd (message_handler scripted nothing_set True private_message (start []))) = [] \<and>
   sent (snd (message_handler scripted nothing_set True private_message (start []))) = []"
  using message_handler_never_raises [of scripted nothing_set True private_message "start []"]
  by (simp add: start_def)


subsection \<open>Updating the contact only when it changed\<close>








subsection \<open>Scanning the pages of a listing\<close>






subsection \<open>Calling the resolver twice\<close>









subsection \<open>The search by source tag\<close>

















end
